theory Spec2Isabelle
  imports Complex_Main "HOL-Library.Product_Lexorder"
begin

section \<open>Timestamps\<close>

text \<open>
  The program stores every date as a string \<^verbatim>\<open>'YYYY-MM-DD HH:MM:SS'\<close> produced by
  \<^verbatim>\<open>datetime.now().strftime(...)\<close> and compares such strings in SQL. For four-digit years
  the order of these strings is the order of the instants they denote, so a timestamp is
  modelled by the number of seconds it lies after a fixed midnight of the naive local
  calendar. \<^verbatim>\<open>timedelta(days=k)\<close> adds \<open>k\<close> whole days of 86400 seconds, and a format
  whose time part is a literal replaces the time of day by that literal. Every operation
  takes the reading of the clock as its argument \<open>now\<close>; the readings within one call are
  taken to be the same second.
\<close>

type_synonym timestamp = int

definition add_days :: "timestamp \<Rightarrow> int \<Rightarrow> timestamp" where
  \<comment> \<open>\<^verbatim>\<open>t + timedelta(days=k)\<close>\<close>
  "add_days t k = t + 86400 * k"

definition time_of_day :: "timestamp \<Rightarrow> int" where
  "time_of_day t = t mod 86400"

definition strftime_midnight :: "timestamp \<Rightarrow> timestamp" where
  \<comment> \<open>\<^verbatim>\<open>t.strftime('%Y-%m-%d 00:00:00')\<close>\<close>
  "strftime_midnight t = (t div 86400) * 86400"

definition strftime_end_of_day :: "timestamp \<Rightarrow> timestamp" where
  \<comment> \<open>\<^verbatim>\<open>t.strftime('%Y-%m-%d 23:59:59')\<close>\<close>
  "strftime_end_of_day t = (t div 86400) * 86400 + 86399"

section \<open>The interval table and the level transition (models/statistics\_model.py)\<close>

definition SRS_INTERVALS :: "int \<rightharpoonup> int" where
  "SRS_INTERVALS = [0 \<mapsto> 1, 1 \<mapsto> 3, 2 \<mapsto> 7, 3 \<mapsto> 14, 4 \<mapsto> 30, 5 \<mapsto> 365]"

definition MAX_MASTERY_LEVEL :: int where
  "MAX_MASTERY_LEVEL = 5"

definition dict_get :: "('k \<rightharpoonup> 'v) \<Rightarrow> 'k \<Rightarrow> 'v \<Rightarrow> 'v" where
  \<comment> \<open>\<^verbatim>\<open>d.get(k, default)\<close>\<close>
  "dict_get d k dflt = (case d k of None \<Rightarrow> dflt | Some v \<Rightarrow> v)"

definition calculate_next_review :: "timestamp \<Rightarrow> int \<Rightarrow> bool \<Rightarrow> int \<times> timestamp" where
  \<comment> \<open>\<^verbatim>\<open>StatisticsModel._calculate_next_review\<close>; the first argument is the clock reading.\<close>
  "calculate_next_review now current_level is_correct =
     (let new_level = (if is_correct then min (current_level + 1) MAX_MASTERY_LEVEL else 0);
          interval = dict_get SRS_INTERVALS new_level 1;
          next_review_date = strftime_midnight (add_days now interval)
      in (new_level, next_review_date))"

section \<open>The persistent store\<close>

subsection \<open>Tables\<close>

text \<open>
  One record per table, with the columns listed in the \<^verbatim>\<open>FIELDS\<close> of the model classes.
  A table is the list of its rows in insertion order. Floating-point columns hold the
  exact rational value of the stored double.
\<close>

record word_row =
  w_word_id :: int
  w_word_text :: string
  w_meaning_ko :: string
  w_category :: "string option"
  w_memo :: "string option"
  w_is_favorite :: int
  w_created_date :: timestamp
  w_modified_date :: timestamp
  w_is_deleted :: int

record stats_row =
  s_stats_id :: int
  s_word_id :: int
  s_total_attempts :: int
  s_correct_count :: int
  s_last_review :: timestamp
  s_next_review :: timestamp
  s_mastery_level :: int

record learning_row =
  lh_history_id :: int
  lh_session_id :: int
  lh_word_id :: int
  lh_is_correct :: int
  lh_response_time :: rat
  lh_learning_date :: timestamp

record exam_row =
  eh_exam_id :: int
  eh_exam_date :: timestamp
  eh_exam_type :: string
  eh_total_questions :: int
  eh_score :: rat
  eh_duration_sec :: int
  eh_is_deleted :: int

text \<open>
  A question result is the dictionary the exam view hands to the controller. The code reads
  the keys \<^verbatim>\<open>word_id\<close> and \<^verbatim>\<open>is_correct\<close>; every other key is a text column that is only
  passed on to the \<^verbatim>\<open>INSERT\<close>, so they are kept as an association list in dictionary order.
\<close>

record question =
  q_word_id :: int
  q_is_correct :: int
  q_others :: "(string \<times> string) list"

record question_row =
  qr_question_id :: int
  qr_exam_id :: int
  qr_question :: question

record note_row =
  n_note_id :: int
  n_word_id :: int
  n_latest_exam_id :: int
  n_wrong_count :: int
  n_last_wrong_date :: timestamp

record tables =
  words :: "word_row list"
  word_statistics :: "stats_row list"
  learning_history :: "learning_row list"
  exam_history :: "exam_row list"
  exam_questions :: "question_row list"
  wrong_note :: "note_row list"

text \<open>Rows returned by the two join queries.\<close>

record review_word =
  rw_word_id :: int
  rw_word_text :: string
  rw_meaning_ko :: string
  rw_mastery_level :: int
  rw_next_review :: timestamp

record wrong_word =
  ww_word_id :: int
  ww_word_text :: string
  ww_meaning_ko :: string
  ww_wrong_count :: int
  ww_last_wrong_date :: timestamp

subsection \<open>SQL statements\<close>

text \<open>One constructor for each SQL text the modelled methods build, with its parameters.\<close>

datatype stmt =
    BEGIN
  | ROLLBACK
  | SELECT_word_statistics int
      \<comment> \<open>\<^verbatim>\<open>SELECT * FROM word_statistics WHERE word_id = ?\<close>\<close>
  | INSERT_word_statistics int int int timestamp timestamp int
      \<comment> \<open>word\_id, total\_attempts, correct\_count, last\_review, next\_review, mastery\_level\<close>
  | UPDATE_word_statistics int int int timestamp timestamp int
      \<comment> \<open>\<^verbatim>\<open>WHERE stats_id = ?\<close>, then the five assigned columns\<close>
  | INSERT_learning_history int int int rat timestamp
  | INSERT_exam_history timestamp string int rat int
  | INSERT_exam_questions question int
      \<comment> \<open>the question dictionary and the \<^verbatim>\<open>exam_id\<close> stored into it\<close>
  | SELECT_wrong_note int
      \<comment> \<open>\<^verbatim>\<open>SELECT note_id, wrong_count FROM wrong_note WHERE word_id = ?\<close>\<close>
  | UPDATE_wrong_note int timestamp int
      \<comment> \<open>latest\_exam\_id, last\_wrong\_date, \<^verbatim>\<open>WHERE note_id = ?\<close>\<close>
  | INSERT_wrong_note int int int timestamp
  | SELECT_review_words timestamp int
  | SELECT_wrong_words "int option"
  | SELECT_active_words
  | SELECT_words_by_category string

datatype rowset =
    NoRows
  | StatsRows "stats_row list"
  | NoteRows "note_row list"
  | ReviewRows "review_word list"
  | WrongRows "wrong_word list"
  | WordRows "word_row list"

record cursor =
  lastrowid :: int
  rowcount :: int
  fetchall :: rowset

definition next_rowid :: "int list \<Rightarrow> int" where
  \<comment> \<open>SQLite gives a new row one more than the largest key in the table.\<close>
  "next_rowid ids = fold max ids 0 + 1"

definition sql_limit :: "int \<Rightarrow> 'a list \<Rightarrow> 'a list" where
  \<comment> \<open>\<^verbatim>\<open>LIMIT n\<close>: SQLite puts no upper bound on the rows when \<open>n\<close> is negative.\<close>
  "sql_limit n rows = (if n < 0 then rows else take (nat n) rows)"

definition review_join :: "tables \<Rightarrow> timestamp \<Rightarrow> review_word list" where
  \<comment> \<open>\<^verbatim>\<open>FROM words W INNER JOIN word_statistics S ON W.word_id = S.word_id
      WHERE W.is_deleted = 0 AND S.next_review <= ?\<close>\<close>
  "review_join t today =
     concat (map (\<lambda>w. map (\<lambda>s. \<lparr>rw_word_id = w_word_id w, rw_word_text = w_word_text w,
                                 rw_meaning_ko = w_meaning_ko w,
                                 rw_mastery_level = s_mastery_level s,
                                 rw_next_review = s_next_review s\<rparr>)
                          (filter (\<lambda>s. w_word_id w = s_word_id s \<and> w_is_deleted w = 0
                                       \<and> s_next_review s \<le> today)
                                  (word_statistics t)))
                 (words t))"

definition wrong_join :: "tables \<Rightarrow> wrong_word list" where
  \<comment> \<open>\<^verbatim>\<open>FROM words W INNER JOIN wrong_note N ON W.word_id = N.word_id WHERE W.is_deleted = 0\<close>\<close>
  "wrong_join t =
     concat (map (\<lambda>w. map (\<lambda>n. \<lparr>ww_word_id = w_word_id w, ww_word_text = w_word_text w,
                                 ww_meaning_ko = w_meaning_ko w,
                                 ww_wrong_count = n_wrong_count n,
                                 ww_last_wrong_date = n_last_wrong_date n\<rparr>)
                          (filter (\<lambda>n. w_word_id w = n_word_id n \<and> w_is_deleted w = 0)
                                  (wrong_note t)))
                 (words t))"

definition wrong_order :: "wrong_word \<Rightarrow> int \<times> timestamp" where
  \<comment> \<open>the sort key of \<^verbatim>\<open>ORDER BY N.wrong_count DESC, N.last_wrong_date ASC\<close>\<close>
  "wrong_order r = (- ww_wrong_count r, ww_last_wrong_date r)"

fun is_dml :: "stmt \<Rightarrow> bool" where
  "is_dml (INSERT_word_statistics _ _ _ _ _ _) = True"
| "is_dml (UPDATE_word_statistics _ _ _ _ _ _) = True"
| "is_dml (INSERT_learning_history _ _ _ _ _) = True"
| "is_dml (INSERT_exam_history _ _ _ _ _) = True"
| "is_dml (INSERT_exam_questions _ _) = True"
| "is_dml (UPDATE_wrong_note _ _ _) = True"
| "is_dml (INSERT_wrong_note _ _ _ _) = True"
| "is_dml _ = False"

fun sql :: "stmt \<Rightarrow> tables \<Rightarrow> tables \<times> cursor" where
  "sql (SELECT_word_statistics wid) t =
     (t, \<lparr>lastrowid = 0, rowcount = -1,
          fetchall = StatsRows (filter (\<lambda>s. s_word_id s = wid) (word_statistics t))\<rparr>)"
| "sql (INSERT_word_statistics wid ta cc lr nr ml) t =
     (let new_id = next_rowid (map s_stats_id (word_statistics t))
      in (t\<lparr>word_statistics := word_statistics t @
               [\<lparr>s_stats_id = new_id, s_word_id = wid, s_total_attempts = ta, s_correct_count = cc,
                 s_last_review = lr, s_next_review = nr, s_mastery_level = ml\<rparr>]\<rparr>,
          \<lparr>lastrowid = new_id, rowcount = 1, fetchall = NoRows\<rparr>))"
| "sql (UPDATE_word_statistics sid ta cc lr nr ml) t =
     (t\<lparr>word_statistics :=
           map (\<lambda>s. if s_stats_id s = sid
                     then s\<lparr>s_total_attempts := ta, s_correct_count := cc, s_last_review := lr,
                            s_next_review := nr, s_mastery_level := ml\<rparr>
                     else s) (word_statistics t)\<rparr>,
      \<lparr>lastrowid = 0,
       rowcount = int (length (filter (\<lambda>s. s_stats_id s = sid) (word_statistics t))),
       fetchall = NoRows\<rparr>)"
| "sql (INSERT_learning_history sid wid ic rt ld) t =
     (let new_id = next_rowid (map lh_history_id (learning_history t))
      in (t\<lparr>learning_history := learning_history t @
               [\<lparr>lh_history_id = new_id, lh_session_id = sid, lh_word_id = wid, lh_is_correct = ic,
                 lh_response_time = rt, lh_learning_date = ld\<rparr>]\<rparr>,
          \<lparr>lastrowid = new_id, rowcount = 1, fetchall = NoRows\<rparr>))"
| "sql (INSERT_exam_history ed ety tq sc du) t =
     (let new_id = next_rowid (map eh_exam_id (exam_history t))
      in (t\<lparr>exam_history := exam_history t @
               [\<lparr>eh_exam_id = new_id, eh_exam_date = ed, eh_exam_type = ety, eh_total_questions = tq,
                 eh_score = sc, eh_duration_sec = du, eh_is_deleted = 0\<rparr>]\<rparr>,
          \<lparr>lastrowid = new_id, rowcount = 1, fetchall = NoRows\<rparr>))"
| "sql (INSERT_exam_questions q eid) t =
     (let new_id = next_rowid (map qr_question_id (exam_questions t))
      in (t\<lparr>exam_questions := exam_questions t @
               [\<lparr>qr_question_id = new_id, qr_exam_id = eid, qr_question = q\<rparr>]\<rparr>,
          \<lparr>lastrowid = new_id, rowcount = 1, fetchall = NoRows\<rparr>))"
| "sql (SELECT_wrong_note wid) t =
     (t, \<lparr>lastrowid = 0, rowcount = -1,
          fetchall = NoteRows (filter (\<lambda>n. n_word_id n = wid) (wrong_note t))\<rparr>)"
| "sql (UPDATE_wrong_note eid lwd nid) t =
     (t\<lparr>wrong_note :=
           map (\<lambda>n. if n_note_id n = nid
                     then n\<lparr>n_wrong_count := n_wrong_count n + 1, n_latest_exam_id := eid,
                            n_last_wrong_date := lwd\<rparr>
                     else n) (wrong_note t)\<rparr>,
      \<lparr>lastrowid = 0,
       rowcount = int (length (filter (\<lambda>n. n_note_id n = nid) (wrong_note t))),
       fetchall = NoRows\<rparr>)"
| "sql (INSERT_wrong_note wid eid wc lwd) t =
     (let new_id = next_rowid (map n_note_id (wrong_note t))
      in (t\<lparr>wrong_note := wrong_note t @
               [\<lparr>n_note_id = new_id, n_word_id = wid, n_latest_exam_id = eid, n_wrong_count = wc,
                 n_last_wrong_date = lwd\<rparr>]\<rparr>,
          \<lparr>lastrowid = new_id, rowcount = 1, fetchall = NoRows\<rparr>))"
| "sql (SELECT_review_words today k) t =
     (t, \<lparr>lastrowid = 0, rowcount = -1,
          fetchall = ReviewRows (sql_limit k (sort_key rw_next_review (review_join t today)))\<rparr>)"
| "sql (SELECT_wrong_words k) t =
     (t, \<lparr>lastrowid = 0, rowcount = -1,
          fetchall = WrongRows
            (case k of None \<Rightarrow> sort_key wrong_order (wrong_join t)
             | Some n \<Rightarrow> sql_limit n (sort_key wrong_order (wrong_join t)))\<rparr>)"
| "sql SELECT_active_words t =
     (t, \<lparr>lastrowid = 0, rowcount = -1,
          fetchall = WordRows (sort_key w_created_date
                                 (filter (\<lambda>w. w_is_deleted w = 0) (words t)))\<rparr>)"
| "sql (SELECT_words_by_category c) t =
     (t, \<lparr>lastrowid = 0, rowcount = -1,
          fetchall = WordRows (filter (\<lambda>w. w_is_deleted w = 0 \<and> w_category w = Some c)
                                 (words t))\<rparr>)"
| "sql BEGIN t = (t, \<lparr>lastrowid = 0, rowcount = -1, fetchall = NoRows\<rparr>)"
| "sql ROLLBACK t = (t, \<lparr>lastrowid = 0, rowcount = -1, fetchall = NoRows\<rparr>)"

fun stats_rows :: "rowset \<Rightarrow> stats_row list" where
  "stats_rows (StatsRows rs) = rs"
| "stats_rows _ = []"

fun note_rows :: "rowset \<Rightarrow> note_row list" where
  "note_rows (NoteRows rs) = rs"
| "note_rows _ = []"

fun review_rows :: "rowset \<Rightarrow> review_word list" where
  "review_rows (ReviewRows rs) = rs"
| "review_rows _ = []"

fun wrong_rows :: "rowset \<Rightarrow> wrong_word list" where
  "wrong_rows (WrongRows rs) = rs"
| "wrong_rows _ = []"

fun word_rows :: "rowset \<Rightarrow> word_row list" where
  "word_rows (WordRows rs) = rs"
| "word_rows _ = []"

subsection \<open>The connection (database/db\_connection.py)\<close>

text \<open>
  The database file holds the committed tables. An open connection may hold a transaction,
  which is a working copy of the tables that only \<^verbatim>\<open>commit\<close> writes back. With the default
  isolation level the sqlite3 module opens a transaction before the first \<^verbatim>\<open>INSERT\<close> or
  \<^verbatim>\<open>UPDATE\<close>; with \<^verbatim>\<open>isolation_level = None\<close> a statement outside a transaction is
  committed at once. Opening the database file is taken to succeed.

  The schema file is not part of the sources, so which statements the engine refuses
  (constraints, unknown columns, I/O errors) is the parameter \<open>rejects\<close> of every operation:
  \<open>rejects s t\<close> says that statement \<open>s\<close> raises \<^verbatim>\<open>sqlite3.Error\<close> on tables \<open>t\<close>.
\<close>

record connection =
  tx :: "tables option"
  isolation_level_none :: bool

record db =
  disk :: tables
  conn :: "connection option"

definition visible :: "db \<Rightarrow> tables" where
  \<comment> \<open>the tables a statement on the connection reads\<close>
  "visible d = (case conn d of None \<Rightarrow> disk d
                | Some c \<Rightarrow> (case tx c of None \<Rightarrow> disk d | Some w \<Rightarrow> w))"

definition connect :: "db \<Rightarrow> db" where
  "connect d = (case conn d of
                  None \<Rightarrow> d\<lparr>conn := Some \<lparr>tx = None, isolation_level_none = False\<rparr>\<rparr>
                | Some c \<Rightarrow> d)"

definition close :: "db \<Rightarrow> db" where
  \<comment> \<open>closing drops a transaction that was not committed\<close>
  "close d = d\<lparr>conn := None\<rparr>"

definition commit :: "db \<Rightarrow> db" where
  "commit d = (case conn d of None \<Rightarrow> d
               | Some c \<Rightarrow> (case tx c of None \<Rightarrow> d
                            | Some w \<Rightarrow> d\<lparr>disk := w, conn := Some (c\<lparr>tx := None\<rparr>)\<rparr>))"

definition conn_rollback :: "db \<Rightarrow> db" where
  \<comment> \<open>\<^verbatim>\<open>self._conn.rollback()\<close>\<close>
  "conn_rollback d = (case conn d of None \<Rightarrow> d
                      | Some c \<Rightarrow> d\<lparr>conn := Some (c\<lparr>tx := None\<rparr>)\<rparr>)"

definition set_isolation_level_none :: "db \<Rightarrow> db" where
  \<comment> \<open>\<^verbatim>\<open>self.db._conn.isolation_level = None\<close>; the setter commits an open transaction\<close>
  "set_isolation_level_none d =
     (case conn (commit d) of None \<Rightarrow> d
      | Some c \<Rightarrow> (commit d)\<lparr>conn := Some (c\<lparr>isolation_level_none := True\<rparr>)\<rparr>)"

definition sqlite_error :: "(stmt \<Rightarrow> tables \<Rightarrow> bool) \<Rightarrow> stmt \<Rightarrow> db \<Rightarrow> bool" where
  \<comment> \<open>\<^verbatim>\<open>BEGIN\<close> inside a transaction and \<^verbatim>\<open>ROLLBACK\<close> outside one are errors of SQLite itself\<close>
  "sqlite_error rejects s d =
     (case conn d of None \<Rightarrow> False
      | Some c \<Rightarrow> (s = BEGIN \<and> tx c \<noteq> None) \<or> (s = ROLLBACK \<and> tx c = None)
                  \<or> rejects s (visible d))"

definition execute :: "(stmt \<Rightarrow> tables \<Rightarrow> bool) \<Rightarrow> stmt \<Rightarrow> db \<Rightarrow> cursor option \<times> db" where
  \<comment> \<open>\<^verbatim>\<open>DBConnection.execute\<close>: an error is logged, the connection rolled back, and
      \<^verbatim>\<open>None\<close> returned; no exception leaves the method\<close>
  "execute rejects s d =
     (case conn d of
        None \<Rightarrow> (None, d)
      | Some c \<Rightarrow>
          if sqlite_error rejects s d then (None, conn_rollback d)
          else if s = BEGIN then (Some (snd (sql s (visible d))),
                                  d\<lparr>conn := Some (c\<lparr>tx := Some (disk d)\<rparr>)\<rparr>)
          else if s = ROLLBACK then (Some (snd (sql s (visible d))), conn_rollback d)
          else if \<not> is_dml s then (Some (snd (sql s (visible d))), d)
          else if tx c = None \<and> isolation_level_none c
               then (Some (snd (sql s (visible d))), d\<lparr>disk := fst (sql s (visible d))\<rparr>)
          else (Some (snd (sql s (visible d))),
                d\<lparr>conn := Some (c\<lparr>tx := Some (fst (sql s (visible d)))\<rparr>)\<rparr>))"

definition db_fetchall :: "(stmt \<Rightarrow> tables \<Rightarrow> bool) \<Rightarrow> stmt \<Rightarrow> db \<Rightarrow> rowset \<times> db" where
  \<comment> \<open>\<^verbatim>\<open>DBConnection.fetchall\<close>\<close>
  "db_fetchall rejects s d =
     (case execute rejects s d of
        (Some cur, d') \<Rightarrow> (fetchall cur, d')
      | (None, d') \<Rightarrow> (NoRows, d'))"

definition db_fetchone_note ::
  "(stmt \<Rightarrow> tables \<Rightarrow> bool) \<Rightarrow> stmt \<Rightarrow> db \<Rightarrow> note_row option \<times> db" where
  \<comment> \<open>\<^verbatim>\<open>DBConnection.fetchone\<close>, used on the wrong-note table only\<close>
  "db_fetchone_note rejects s d =
     (case execute rejects s d of
        (Some cur, d') \<Rightarrow> ((case note_rows (fetchall cur) of [] \<Rightarrow> None | r # _ \<Rightarrow> Some r), d')
      | (None, d') \<Rightarrow> (None, d'))"

subsection \<open>The shared CRUD methods (models/base\_model.py)\<close>

definition insert_model :: "(stmt \<Rightarrow> tables \<Rightarrow> bool) \<Rightarrow> stmt \<Rightarrow> db \<Rightarrow> int option \<times> db" where
  \<comment> \<open>\<^verbatim>\<open>BaseModel.insert\<close>, given the \<^verbatim>\<open>INSERT\<close> it builds from its dictionary\<close>
  "insert_model rejects s d =
     (case execute rejects s (connect d) of
        (Some cur, d') \<Rightarrow> (Some (lastrowid cur), close (commit d'))
      | (None, d') \<Rightarrow> (None, close d'))"

definition select_all :: "(stmt \<Rightarrow> tables \<Rightarrow> bool) \<Rightarrow> stmt \<Rightarrow> db \<Rightarrow> rowset \<times> db" where
  \<comment> \<open>\<^verbatim>\<open>BaseModel.select_all\<close>\<close>
  "select_all rejects s d =
     (case db_fetchall rejects s (connect d) of (rows, d') \<Rightarrow> (rows, close d'))"

definition update :: "(stmt \<Rightarrow> tables \<Rightarrow> bool) \<Rightarrow> stmt \<Rightarrow> db \<Rightarrow> bool \<times> db" where
  \<comment> \<open>\<^verbatim>\<open>BaseModel.update\<close>, given the \<^verbatim>\<open>UPDATE\<close> it builds from a non-empty dictionary\<close>
  "update rejects s d =
     (case execute rejects s (connect d) of
        (Some cur, d') \<Rightarrow>
          if rowcount cur > 0 then (True, close (commit d')) else (False, close d')
      | (None, d') \<Rightarrow> (False, close d'))"

section \<open>Mastery tracker (models/statistics\_model.py)\<close>

definition update_statistics ::
  "(stmt \<Rightarrow> tables \<Rightarrow> bool) \<Rightarrow> timestamp \<Rightarrow> int \<Rightarrow> bool \<Rightarrow> db \<Rightarrow> bool \<times> db" where
  "update_statistics rejects now word_id is_correct d =
     (case select_all rejects (SELECT_word_statistics word_id) d of
        (rows, d1) \<Rightarrow>
          (case stats_rows rows of
             [] \<Rightarrow>
               (case calculate_next_review now 0 is_correct of
                  (new_level, next_review_date) \<Rightarrow>
                    (case insert_model rejects
                            (INSERT_word_statistics word_id 1 (if is_correct then 1 else 0)
                               now next_review_date new_level) d1 of
                       (r, d2) \<Rightarrow> (r \<noteq> None, d2)))
           | stats # _ \<Rightarrow>
               (case calculate_next_review now (s_mastery_level stats) is_correct of
                  (new_level, next_review_date) \<Rightarrow>
                    update rejects
                      (UPDATE_word_statistics (s_stats_id stats) (s_total_attempts stats + 1)
                         (s_correct_count stats + (if is_correct then 1 else 0))
                         now next_review_date new_level) d1)))"

definition select_review_words ::
  "(stmt \<Rightarrow> tables \<Rightarrow> bool) \<Rightarrow> timestamp \<Rightarrow> int \<Rightarrow> db \<Rightarrow> review_word list \<times> db" where
  "select_review_words rejects now limit d =
     (let today = strftime_end_of_day now
      in case execute rejects (SELECT_review_words today limit) (connect d) of
           (Some cur, d') \<Rightarrow> (review_rows (fetchall cur), close d')
         | (None, d') \<Rightarrow> ([], close d'))"

section \<open>Learning session log (models/learning\_model.py, controllers/learning\_controller.py)\<close>

definition add_history ::
  "(stmt \<Rightarrow> tables \<Rightarrow> bool) \<Rightarrow> timestamp \<Rightarrow> int \<Rightarrow> int \<Rightarrow> bool \<Rightarrow> rat \<Rightarrow> db
     \<Rightarrow> int option \<times> db" where
  "add_history rejects now session_id word_id is_correct response_time d =
     insert_model rejects
       (INSERT_learning_history session_id word_id (if is_correct then 1 else 0)
          response_time now) d"

definition record_word_result ::
  "(stmt \<Rightarrow> tables \<Rightarrow> bool) \<Rightarrow> timestamp \<Rightarrow> int \<Rightarrow> int \<Rightarrow> bool \<Rightarrow> rat \<Rightarrow> db
     \<Rightarrow> bool \<times> db" where
  "record_word_result rejects now session_id word_id is_correct response_time d =
     (case add_history rejects now session_id word_id is_correct response_time d of
        (h, d1) \<Rightarrow>
          (let history_success = (h \<noteq> None);
               success1 = (if \<not> history_success then False else True)
           in case update_statistics rejects now word_id is_correct d1 of
                (stats_success, d2) \<Rightarrow>
                  (let success2 = (if \<not> stats_success then False else success1)
                   in (success2, d2))))"

section \<open>Exam engine and wrong-note ledger (models/exam\_model.py)\<close>

definition update_wrong_note ::
  "(stmt \<Rightarrow> tables \<Rightarrow> bool) \<Rightarrow> timestamp \<Rightarrow> int \<Rightarrow> int \<Rightarrow> db \<Rightarrow> bool \<times> db" where
  \<comment> \<open>\<^verbatim>\<open>ExamModel._update_wrong_note\<close>, on the connection its caller has opened\<close>
  "update_wrong_note rejects now word_id latest_exam_id d =
     (case db_fetchone_note rejects (SELECT_wrong_note word_id) d of
        (Some row, d1) \<Rightarrow>
          (True, snd (execute rejects (UPDATE_wrong_note latest_exam_id now (n_note_id row)) d1))
      | (None, d1) \<Rightarrow>
          (True, snd (execute rejects (INSERT_wrong_note word_id latest_exam_id 1 now) d1)))"

fun record_questions ::
  "(stmt \<Rightarrow> tables \<Rightarrow> bool) \<Rightarrow> timestamp \<Rightarrow> int \<Rightarrow> question list \<Rightarrow> db \<Rightarrow> db" where
  \<comment> \<open>the \<^verbatim>\<open>for q in questions_detail\<close> loop of \<^verbatim>\<open>record_exam_result\<close>; the result of the
      \<^verbatim>\<open>INSERT\<close> is not looked at\<close>
  "record_questions rejects now eid [] d = d"
| "record_questions rejects now eid (q # qs) d =
     (let d1 = snd (execute rejects (INSERT_exam_questions q eid) d);
          d2 = (if q_is_correct q = 0
                then snd (update_wrong_note rejects now (q_word_id q) eid d1)
                else d1)
      in record_questions rejects now eid qs d2)"

definition record_exam_result ::
  "(stmt \<Rightarrow> tables \<Rightarrow> bool) \<Rightarrow> timestamp \<Rightarrow> string \<Rightarrow> int \<Rightarrow> rat \<Rightarrow> int \<Rightarrow> question list \<Rightarrow> db
     \<Rightarrow> int option \<times> db" where
  \<comment> \<open>the \<^verbatim>\<open>except\<close> branch is reached when the history \<^verbatim>\<open>INSERT\<close> gave no cursor
      (\<^verbatim>\<open>AttributeError\<close> on \<^verbatim>\<open>cursor.lastrowid\<close>) or a zero id\<close>
  "record_exam_result rejects now exam_type total_questions score duration_sec
       questions_detail d =
     (let d1 = set_isolation_level_none (connect d);
          d2 = snd (execute rejects BEGIN d1)
      in case execute rejects
                (INSERT_exam_history now exam_type total_questions score duration_sec) d2 of
           (None, d3) \<Rightarrow> (None, close (snd (execute rejects ROLLBACK d3)))
         | (Some cur, d3) \<Rightarrow>
             if lastrowid cur = 0
             then (None, close (snd (execute rejects ROLLBACK d3)))
             else (Some (lastrowid cur),
                   close (commit (record_questions rejects now (lastrowid cur)
                                    questions_detail d3))))"

definition select_wrong_words_for_review ::
  "(stmt \<Rightarrow> tables \<Rightarrow> bool) \<Rightarrow> int option \<Rightarrow> db \<Rightarrow> wrong_word list \<times> db" where
  "select_wrong_words_for_review rejects limit d =
     (case execute rejects (SELECT_wrong_words limit) (connect d) of
        (Some cur, d') \<Rightarrow> (wrong_rows (fetchall cur), close d')
      | (None, d') \<Rightarrow> ([], close d'))"

section \<open>Python floats\<close>

text \<open>
  A finite double is modelled by the rational number it denotes. \<open>float_round\<close> is rounding
  to the nearest binary64 value, ties to even, with 53 significant bits and the smallest
  exponent \<open>-1022\<close>; overflow is not modelled, no value here exceeds 100. Integer true
  division and float multiplication are the exact results rounded once; \<^verbatim>\<open>round(x, n)\<close>
  is the decimal rounding of the exact value of \<open>x\<close>, ties to even, read back as a double.
\<close>

definition pow2 :: "int \<Rightarrow> rat" where
  "pow2 e = (if 0 \<le> e then 2 ^ nat e else 1 / 2 ^ nat (- e))"

definition round_half_even :: "rat \<Rightarrow> int" where
  "round_half_even x =
     (let f = \<lfloor>x\<rfloor>; r = x - of_int f
      in if r < 1 / 2 then f else if 1 / 2 < r then f + 1 else if even f then f else f + 1)"

function bit_length :: "int \<Rightarrow> int" where
  \<comment> \<open>the number of binary digits of a positive integer\<close>
  "bit_length n = (if n \<le> 0 then 0 else 1 + bit_length (n div 2))"
  by pat_completeness auto
termination
  by (relation "measure nat") auto

definition floor_log2 :: "rat \<Rightarrow> int" where
  \<comment> \<open>for positive \<open>x\<close>, the \<open>e\<close> with \<open>2 ^ e \<le> x < 2 ^ (e + 1)\<close>\<close>
  "floor_log2 x =
     (case quotient_of x of
        (n, m) \<Rightarrow> (let k = bit_length n - bit_length m
                   in if pow2 k \<le> x then k else k - 1))"

definition float_round :: "rat \<Rightarrow> rat" where
  "float_round x =
     (if x = 0 then 0
      else let e = max (floor_log2 \<bar>x\<bar>) (- 1022); ulp = pow2 (e - 52)
           in of_int (round_half_even (x / ulp)) * ulp)"

definition py_truediv :: "int \<Rightarrow> int \<Rightarrow> rat" where
  \<comment> \<open>\<^verbatim>\<open>a / b\<close> on integers, for \<open>b \<noteq> 0\<close>\<close>
  "py_truediv a b = float_round (of_int a / of_int b)"

definition py_float_mul :: "rat \<Rightarrow> rat \<Rightarrow> rat" where
  "py_float_mul x y = float_round (x * y)"

definition py_round :: "rat \<Rightarrow> nat \<Rightarrow> rat" where
  \<comment> \<open>\<^verbatim>\<open>round(x, ndigits)\<close> on a float\<close>
  "py_round x ndigits =
     float_round (of_int (round_half_even (x * 10 ^ ndigits)) / 10 ^ ndigits)"

section \<open>Exam controller (controllers/exam\_controller.py)\<close>

record exam_summary =
  sm_exam_id :: int
  sm_score :: rat
  sm_correct_count :: int
  sm_wrong_count :: int
  sm_total_questions :: int

definition grade :: "question list \<Rightarrow> int \<times> int" where
  \<comment> \<open>the counting loop of \<^verbatim>\<open>submit_and_record_exam\<close>: (correct\_count, wrong\_count)\<close>
  "grade questions_data =
     fold (\<lambda>q (correct_count, wrong_count).
             if q_is_correct q = 1 then (correct_count + 1, wrong_count)
             else (correct_count, wrong_count + 1))
          questions_data (0, 0)"

definition submit_and_record_exam ::
  "(stmt \<Rightarrow> tables \<Rightarrow> bool) \<Rightarrow> timestamp \<Rightarrow> string \<Rightarrow> int \<Rightarrow> question list \<Rightarrow> db
     \<Rightarrow> exam_summary option \<times> db" where
  "submit_and_record_exam rejects now exam_type duration_sec questions_data d =
     (if questions_data = [] then (None, d)
      else
        (case grade questions_data of
           (correct_count, wrong_count) \<Rightarrow>
             (let total_questions = int (length questions_data);
                  score0 = (if total_questions > 0
                            then py_float_mul (py_truediv correct_count total_questions) 100
                            else 0);
                  score1 = py_round score0 1
              in case record_exam_result rejects now exam_type total_questions score1
                        duration_sec questions_data d of
                   (Some eid, d') \<Rightarrow>
                     (Some \<lparr>sm_exam_id = eid, sm_score = score1,
                            sm_correct_count = correct_count, sm_wrong_count = wrong_count,
                            sm_total_questions = total_questions\<rparr>, d')
                 | (None, d') \<Rightarrow> (None, d'))))"

definition select_active_words ::
  "(stmt \<Rightarrow> tables \<Rightarrow> bool) \<Rightarrow> db \<Rightarrow> word_row list \<times> db" where
  \<comment> \<open>\<^verbatim>\<open>WordModel.select_active_words\<close>\<close>
  "select_active_words rejects d =
     (case select_all rejects SELECT_active_words d of (rows, d') \<Rightarrow> (word_rows rows, d'))"

definition select_by_category ::
  "(stmt \<Rightarrow> tables \<Rightarrow> bool) \<Rightarrow> string \<Rightarrow> db \<Rightarrow> word_row list \<times> db" where
  \<comment> \<open>\<^verbatim>\<open>WordModel.select_by_category\<close>\<close>
  "select_by_category rejects category d =
     (case select_all rejects (SELECT_words_by_category category) d of
        (rows, d') \<Rightarrow> (word_rows rows, d'))"

definition get_candidate_words ::
  "(stmt \<Rightarrow> tables \<Rightarrow> bool) \<Rightarrow> string option \<Rightarrow> db \<Rightarrow> word_row list \<times> db" where
  \<comment> \<open>\<^verbatim>\<open>if category:\<close> is false for \<^verbatim>\<open>None\<close> and for the empty string\<close>
  "get_candidate_words rejects category d =
     (case category of
        None \<Rightarrow> select_active_words rejects d
      | Some c \<Rightarrow> if c \<noteq> [] then select_by_category rejects c d
                  else select_active_words rejects d)"

definition py_slice_to :: "int \<Rightarrow> 'a list \<Rightarrow> 'a list" where
  \<comment> \<open>\<^verbatim>\<open>xs[:n]\<close>; a negative \<open>n\<close> counts from the end\<close>
  "py_slice_to n xs = (if n < 0 then take (nat (int (length xs) + n)) xs else take (nat n) xs)"

definition generate_exam_words ::
  "(stmt \<Rightarrow> tables \<Rightarrow> bool) \<Rightarrow> (word_row list \<Rightarrow> word_row list) \<Rightarrow> int \<Rightarrow> string
     \<Rightarrow> string option \<Rightarrow> db \<Rightarrow> (wrong_word list + word_row list) \<times> db" where
  \<comment> \<open>the second argument is the permutation \<^verbatim>\<open>random.shuffle\<close> applies; the wrong-note
      branch returns rows of the wrong-note join, the other branch rows of the word table\<close>
  "generate_exam_words rejects shuffle question_count mode category d =
     (if mode = ''wrong_note''
      then (case select_wrong_words_for_review rejects (Some question_count) d of
              (candidate_words, d') \<Rightarrow> (Inl candidate_words, d'))
      else (case get_candidate_words rejects category d of
              (all_words, d') \<Rightarrow>
                (let question_count' = (if int (length all_words) < question_count
                                        then int (length all_words) else question_count)
                 in (Inr (py_slice_to question_count' (shuffle all_words)), d'))))"

section \<open>Reading the store, and example stores\<close>

text \<open>
  Notions used to state the properties below: the mastery record of a word is the first row
  of \<^verbatim>\<open>word_statistics\<close> for it (the row \<^verbatim>\<open>current_stats[0]\<close> the code reads), and its
  current level is that row's level, or 0 when there is none.
\<close>

definition mastery_record :: "tables \<Rightarrow> int \<Rightarrow> stats_row option" where
  "mastery_record t w = find (\<lambda>s. s_word_id s = w) (word_statistics t)"

definition current_level_of :: "tables \<Rightarrow> int \<Rightarrow> int" where
  "current_level_of t w = (case mastery_record t w of None \<Rightarrow> 0 | Some s \<Rightarrow> s_mastery_level s)"

definition no_errors :: "stmt \<Rightarrow> tables \<Rightarrow> bool" where
  \<comment> \<open>an engine that accepts every statement\<close>
  "no_errors s t = False"

definition empty_tables :: tables where
  "empty_tables = \<lparr>words = [], word_statistics = [], learning_history = [], exam_history = [],
                    exam_questions = [], wrong_note = []\<rparr>"

definition mastered_store :: db where
  "mastered_store =
     \<lparr>disk = empty_tables\<lparr>word_statistics :=
               [\<lparr>s_stats_id = 1, s_word_id = 7, s_total_attempts = 9, s_correct_count = 8,
                 s_last_review = 0, s_next_review = 86400, s_mastery_level = 5\<rparr>]\<rparr>,
      conn = None\<rparr>"

fun history_unwritable :: "stmt \<Rightarrow> tables \<Rightarrow> bool" where
  \<comment> \<open>an engine that refuses every insert into \<^verbatim>\<open>learning_history\<close>\<close>
  "history_unwritable (INSERT_learning_history _ _ _ _ _) t = True"
| "history_unwritable _ t = False"

text \<open>The wrong-note entries of a word, in table order.\<close>

definition note_entries :: "tables \<Rightarrow> int \<Rightarrow> note_row list" where
  "note_entries t w = filter (\<lambda>n. n_word_id n = w) (wrong_note t)"

text \<open>A store in the middle of an exam transaction, with one wrong-note entry for word 7.\<close>

definition exam_in_progress :: db where
  "exam_in_progress =
     \<lparr>disk = empty_tables,
      conn = Some \<lparr>tx = Some (empty_tables\<lparr>wrong_note :=
                      [\<lparr>n_note_id = 1, n_word_id = 7, n_latest_exam_id = 2, n_wrong_count = 4,
                        n_last_wrong_date = 86400\<rparr>]\<rparr>),
                   isolation_level_none = True\<rparr>\<rparr>"

text \<open>
  A store with four words, the last one soft-deleted, their mastery records and wrong-note
  entries.
\<close>

definition review_store :: db where
  "review_store =
     \<lparr>disk = empty_tables
        \<lparr>words :=
           [\<lparr>w_word_id = 1, w_word_text = ''apple'', w_meaning_ko = ''sagwa'', w_category = None,
             w_memo = None, w_is_favorite = 0, w_created_date = 0, w_modified_date = 0,
             w_is_deleted = 0\<rparr>,
            \<lparr>w_word_id = 2, w_word_text = ''pear'', w_meaning_ko = ''bae'', w_category = None,
             w_memo = None, w_is_favorite = 0, w_created_date = 0, w_modified_date = 0,
             w_is_deleted = 0\<rparr>,
            \<lparr>w_word_id = 3, w_word_text = ''plum'', w_meaning_ko = ''jadu'', w_category = None,
             w_memo = None, w_is_favorite = 0, w_created_date = 0, w_modified_date = 0,
             w_is_deleted = 0\<rparr>,
            \<lparr>w_word_id = 4, w_word_text = ''fig'', w_meaning_ko = ''muhwagwa'', w_category = None,
             w_memo = None, w_is_favorite = 0, w_created_date = 0, w_modified_date = 0,
             w_is_deleted = 1\<rparr>],
         word_statistics :=
           [\<lparr>s_stats_id = 1, s_word_id = 1, s_total_attempts = 1, s_correct_count = 1,
             s_last_review = 0, s_next_review = 3600, s_mastery_level = 1\<rparr>,
            \<lparr>s_stats_id = 2, s_word_id = 2, s_total_attempts = 1, s_correct_count = 0,
             s_last_review = 0, s_next_review = 86400, s_mastery_level = 0\<rparr>,
            \<lparr>s_stats_id = 3, s_word_id = 4, s_total_attempts = 1, s_correct_count = 0,
             s_last_review = 0, s_next_review = 86400, s_mastery_level = 0\<rparr>,
            \<lparr>s_stats_id = 4, s_word_id = 3, s_total_attempts = 1, s_correct_count = 1,
             s_last_review = 0, s_next_review = 172800, s_mastery_level = 1\<rparr>],
         wrong_note :=
           [\<lparr>n_note_id = 1, n_word_id = 1, n_latest_exam_id = 1, n_wrong_count = 2,
             n_last_wrong_date = 10\<rparr>,
            \<lparr>n_note_id = 2, n_word_id = 2, n_latest_exam_id = 3, n_wrong_count = 5,
             n_last_wrong_date = 50\<rparr>,
            \<lparr>n_note_id = 3, n_word_id = 3, n_latest_exam_id = 2, n_wrong_count = 5,
             n_last_wrong_date = 20\<rparr>,
            \<lparr>n_note_id = 4, n_word_id = 4, n_latest_exam_id = 2, n_wrong_count = 9,
             n_last_wrong_date = 20\<rparr>]\<rparr>,
      conn = None\<rparr>"

text \<open>Example inputs for the exam engine.\<close>

definition empty_store :: db where
  "empty_store = \<lparr>disk = empty_tables, conn = None\<rparr>"

text \<open>A question result with the keys the docstring of \<^verbatim>\<open>record_exam_result\<close> lists.\<close>

definition exam_question :: "int \<Rightarrow> int \<Rightarrow> question" where
  "exam_question w c =
     \<lparr>q_word_id = w, q_is_correct = c,
      q_others = [(''question_text'', ''word''), (''correct_answer'', ''meaning''),
                  (''user_answer'', ''answer'')]\<rparr>"

definition ten_answers :: "question list" where
  "ten_answers = map (\<lambda>w. exam_question w 1) [1, 2, 3, 4, 5, 6, 7]
                 @ map (\<lambda>w. exam_question w 0) [8, 9, 10]"

text \<open>
  A question result as \<^verbatim>\<open>ExamView._submit_answer_and_next\<close> builds it: the keys are
  \<^verbatim>\<open>word_id, word_text, correct_answer, user_answer, question_type, is_correct\<close>.
\<close>

definition view_question :: "int \<Rightarrow> int \<Rightarrow> question" where
  "view_question w c =
     \<lparr>q_word_id = w, q_is_correct = c,
      q_others = [(''word_text'', ''word''), (''correct_answer'', ''meaning''),
                  (''user_answer'', ''answer''), (''question_type'', ''short_answer'')]\<rparr>"

text \<open>
  An engine whose \<^verbatim>\<open>exam_questions\<close> table has the columns of \<^verbatim>\<open>ExamQuestionModel.FIELDS\<close>:
  an insert that names any other column is refused.
\<close>

definition exam_question_columns :: "string list" where
  "exam_question_columns = [''question_id'', ''exam_id'', ''word_id'', ''question_text'',
                            ''correct_answer'', ''user_answer'', ''is_correct'']"

fun unknown_column :: "stmt \<Rightarrow> tables \<Rightarrow> bool" where
  "unknown_column (INSERT_exam_questions q e) t =
     (\<not> set (map fst (q_others q)) \<subseteq> set exam_question_columns)"
| "unknown_column _ t = False"

text \<open>Exams of three and of sixteen questions with one correct answer.\<close>

definition three_answers :: "question list" where
  "three_answers = [exam_question 1 1, exam_question 2 0, exam_question 3 0]"

definition sixteen_answers :: "question list" where
  "sixteen_answers = exam_question 1 1 # map (\<lambda>w. exam_question w 0)
                       [2, 3, 4, 5, 6, 7, 8, 9, 10, 11, 12, 13, 14, 15, 16]"

section \<open>Properties of the store operations\<close>

lemma select_all_closed:
  assumes "conn d = None" "\<not> rejects s (disk d)" "\<not> is_dml s" "s \<noteq> BEGIN" "s \<noteq> ROLLBACK"
  shows "select_all rejects s d = (fetchall (snd (sql s (disk d))), d)"
  using assms
  by (simp add: select_all_def db_fetchall_def execute_def sqlite_error_def connect_def
      visible_def close_def)

lemma select_all_rejected:
  assumes "conn d = None" "rejects s (disk d)"
  shows "select_all rejects s d = (NoRows, d)"
  using assms
  by (simp add: select_all_def db_fetchall_def execute_def sqlite_error_def connect_def
      visible_def close_def conn_rollback_def)

lemma insert_model_closed:
  assumes "conn d = None" "\<not> rejects s (disk d)" "is_dml s"
  shows "insert_model rejects s d =
           (Some (lastrowid (snd (sql s (disk d)))), d\<lparr>disk := fst (sql s (disk d))\<rparr>)"
proof -
  have "s \<noteq> BEGIN" "s \<noteq> ROLLBACK" using assms(3) by auto
  then show ?thesis using assms
    by (simp add: insert_model_def execute_def sqlite_error_def connect_def
        visible_def close_def commit_def)
qed

lemma insert_model_rejected:
  assumes "conn d = None" "rejects s (disk d)"
  shows "insert_model rejects s d = (None, d)"
  using assms
  by (simp add: insert_model_def execute_def sqlite_error_def connect_def
      visible_def close_def conn_rollback_def)

lemma update_closed:
  assumes "conn d = None" "\<not> rejects s (disk d)" "is_dml s"
  shows "update rejects s d =
           (if rowcount (snd (sql s (disk d))) > 0
            then (True, d\<lparr>disk := fst (sql s (disk d))\<rparr>) else (False, d))"
proof -
  have "s \<noteq> BEGIN" "s \<noteq> ROLLBACK" using assms(3) by auto
  then show ?thesis using assms
    by (simp add: update_def execute_def sqlite_error_def connect_def
        visible_def close_def commit_def)
qed

lemma update_rejected:
  assumes "conn d = None" "rejects s (disk d)"
  shows "update rejects s d = (False, d)"
  using assms
  by (simp add: update_def execute_def sqlite_error_def connect_def
      visible_def close_def conn_rollback_def)

lemma find_filter:
  "find P xs = (case filter P xs of [] \<Rightarrow> None | x # _ \<Rightarrow> Some x)"
  by (induction xs) auto

lemma find_map_preserving:
  "(\<And>x. P (f x) = P x) \<Longrightarrow> find P (map f xs) = map_option f (find P xs)"
  by (induction xs) auto

lemma filter_Cons_mem: "filter P xs = x # ys \<Longrightarrow> x \<in> set xs \<and> P x"
  by (induction xs) (auto split: if_splits)

lemma filter_pos_length: "x \<in> set xs \<Longrightarrow> P x \<Longrightarrow> 0 < length (filter P xs)"
  by (induction xs) auto

subsection \<open>What \<open>update_statistics\<close> writes when the engine accepts every statement\<close>

lemma update_statistics_ok:
  assumes closed: "conn d = None" and ok: "\<And>s t. \<not> rejects s t"
  shows "update_statistics rejects now w c d =
     (case filter (\<lambda>s. s_word_id s = w) (word_statistics (disk d)) of
        [] \<Rightarrow> (True, d\<lparr>disk := fst (sql (INSERT_word_statistics w 1 (if c then 1 else 0) now
                          (snd (calculate_next_review now 0 c))
                          (fst (calculate_next_review now 0 c))) (disk d))\<rparr>)
      | st # _ \<Rightarrow> (True, d\<lparr>disk := fst (sql (UPDATE_word_statistics (s_stats_id st)
                          (s_total_attempts st + 1) (s_correct_count st + (if c then 1 else 0)) now
                          (snd (calculate_next_review now (s_mastery_level st) c))
                          (fst (calculate_next_review now (s_mastery_level st) c))) (disk d))\<rparr>))"
proof (cases "filter (\<lambda>s. s_word_id s = w) (word_statistics (disk d))")
  case Nil
  then show ?thesis
    using closed ok
    by (simp add: update_statistics_def select_all_closed insert_model_closed split: prod.splits)
next
  case (Cons st rest)
  then have "st \<in> set (word_statistics (disk d))"
    using filter_Cons_mem by fastforce
  then have "0 < length (filter (\<lambda>s. s_stats_id s = s_stats_id st) (word_statistics (disk d)))"
    by (rule filter_pos_length) simp
  then show ?thesis
    using closed ok Cons
    by (simp add: update_statistics_def select_all_closed update_closed split: prod.splits)
qed

lemma level_transition:
  "fst (calculate_next_review now lvl c) = (if c then min (lvl + 1) 5 else 0)"
  by (simp add: calculate_next_review_def MAX_MASTERY_LEVEL_def Let_def)

lemma mastery_after:
  assumes closed: "conn d = None" and ok: "\<And>s t. \<not> rejects s t"
  shows "map_option s_mastery_level
           (mastery_record (disk (snd (update_statistics rejects now w c d))) w)
         = Some (fst (calculate_next_review now (current_level_of (disk d) w) c))"
proof (cases "filter (\<lambda>s. s_word_id s = w) (word_statistics (disk d))")
  case Nil
  then show ?thesis
    using update_statistics_ok[OF closed ok]
    by (simp add: mastery_record_def current_level_of_def find_filter Let_def)
next
  case (Cons st rest)
  let ?f = "\<lambda>s. if s_stats_id s = s_stats_id st
        then s\<lparr>s_total_attempts := s_total_attempts st + 1,
               s_correct_count := s_correct_count st + (if c then 1 else 0),
               s_last_review := now,
               s_next_review := snd (calculate_next_review now (s_mastery_level st) c),
               s_mastery_level := fst (calculate_next_review now (s_mastery_level st) c)\<rparr>
        else s"
  have pres: "\<And>x. (s_word_id (?f x) = w) = (s_word_id x = w)" by simp
  have "find (\<lambda>s. s_word_id s = w) (map ?f (word_statistics (disk d)))
        = map_option ?f (find (\<lambda>s. s_word_id s = w) (word_statistics (disk d)))"
    by (rule find_map_preserving) (rule pres)
  then show ?thesis
    using update_statistics_ok[OF closed ok] Cons
    by (simp add: mastery_record_def current_level_of_def find_filter)
qed

lemma next_review_after:
  assumes closed: "conn d = None" and ok: "\<And>s t. \<not> rejects s t"
  shows "map_option s_next_review
           (mastery_record (disk (snd (update_statistics rejects now w c d))) w)
         = Some (snd (calculate_next_review now (current_level_of (disk d) w) c))"
proof (cases "filter (\<lambda>s. s_word_id s = w) (word_statistics (disk d))")
  case Nil
  then show ?thesis
    using update_statistics_ok[OF closed ok]
    by (simp add: mastery_record_def current_level_of_def find_filter Let_def)
next
  case (Cons st rest)
  let ?f = "\<lambda>s. if s_stats_id s = s_stats_id st
        then s\<lparr>s_total_attempts := s_total_attempts st + 1,
               s_correct_count := s_correct_count st + (if c then 1 else 0),
               s_last_review := now,
               s_next_review := snd (calculate_next_review now (s_mastery_level st) c),
               s_mastery_level := fst (calculate_next_review now (s_mastery_level st) c)\<rparr>
        else s"
  have pres: "\<And>x. (s_word_id (?f x) = w) = (s_word_id x = w)" by simp
  have "find (\<lambda>s. s_word_id s = w) (map ?f (word_statistics (disk d)))
        = map_option ?f (find (\<lambda>s. s_word_id s = w) (word_statistics (disk d)))"
    by (rule find_map_preserving) (rule pres)
  then show ?thesis
    using update_statistics_ok[OF closed ok] Cons
    by (simp add: mastery_record_def current_level_of_def find_filter)
qed

subsection \<open>The CRUD methods on a closed connection, whatever the engine refuses\<close>

lemma insert_model_cases:
  assumes "conn d = None" "is_dml s"
  shows "insert_model rejects s d =
           (if rejects s (disk d) then (None, d)
            else (Some (lastrowid (snd (sql s (disk d)))), d\<lparr>disk := fst (sql s (disk d))\<rparr>))"
  using assms by (simp add: insert_model_closed insert_model_rejected)

lemma update_cases:
  assumes "conn d = None" "is_dml s"
  shows "update rejects s d =
           (if \<not> rejects s (disk d) \<and> rowcount (snd (sql s (disk d))) > 0
            then (True, d\<lparr>disk := fst (sql s (disk d))\<rparr>) else (False, d))"
  using assms by (cases "rejects s (disk d)") (simp_all add: update_closed update_rejected)

lemma select_all_keeps:
  assumes "conn d = None" "\<not> is_dml s" "s \<noteq> BEGIN" "s \<noteq> ROLLBACK"
  shows "snd (select_all rejects s d) = d"
  using assms by (cases "rejects s (disk d)") (simp_all add: select_all_closed select_all_rejected)

lemma add_history_cases:
  assumes "conn d = None"
  shows "add_history rejects now sid w c rt d =
           (if rejects (INSERT_learning_history sid w (if c then 1 else 0) rt now) (disk d)
            then (None, d)
            else (Some (next_rowid (map lh_history_id (learning_history (disk d)))),
                  d\<lparr>disk := (disk d)\<lparr>learning_history := learning_history (disk d) @
                      [\<lparr>lh_history_id = next_rowid (map lh_history_id (learning_history (disk d))),
                        lh_session_id = sid, lh_word_id = w,
                        lh_is_correct = (if c then 1 else 0), lh_response_time = rt,
                        lh_learning_date = now\<rparr>]\<rparr>\<rparr>))"
  using assms by (simp add: add_history_def insert_model_cases Let_def)

lemma insert_model_frame:
  assumes "conn d = None" "is_dml s"
  shows "conn (snd (insert_model rejects s d)) = None
         \<and> (disk (snd (insert_model rejects s d)) = disk d
            \<or> disk (snd (insert_model rejects s d)) = fst (sql s (disk d)))"
  using assms by (simp add: insert_model_cases)

lemma update_frame:
  assumes "conn d = None" "is_dml s"
  shows "conn (snd (update rejects s d)) = None
         \<and> (disk (snd (update rejects s d)) = disk d
            \<or> disk (snd (update rejects s d)) = fst (sql s (disk d)))"
  using assms by (simp add: update_cases)

lemma update_statistics_frame:
  assumes "conn d = None"
  shows "conn (snd (update_statistics rejects now w c d)) = None
         \<and> learning_history (disk (snd (update_statistics rejects now w c d)))
           = learning_history (disk d)"
proof -
  have "snd (select_all rejects (SELECT_word_statistics w) d) = d"
    using assms by (simp add: select_all_keeps)
  then obtain rows where sel: "select_all rejects (SELECT_word_statistics w) d = (rows, d)"
    by (cases "select_all rejects (SELECT_word_statistics w) d") auto
  show ?thesis
  proof (cases "stats_rows rows")
    case Nil
    let ?s = "INSERT_word_statistics w 1 (if c then 1 else 0) now
                (snd (calculate_next_review now 0 c)) (fst (calculate_next_review now 0 c))"
    have u: "snd (update_statistics rejects now w c d) = snd (insert_model rejects ?s d)"
      using sel Nil by (simp add: update_statistics_def split: prod.splits)
    have "learning_history (fst (sql ?s (disk d))) = learning_history (disk d)"
      by (simp add: Let_def)
    then show ?thesis
      using insert_model_frame[of d ?s rejects] assms u by auto
  next
    case (Cons st rest)
    let ?s = "UPDATE_word_statistics (s_stats_id st) (s_total_attempts st + 1)
                (s_correct_count st + (if c then 1 else 0)) now
                (snd (calculate_next_review now (s_mastery_level st) c))
                (fst (calculate_next_review now (s_mastery_level st) c))"
    have u: "snd (update_statistics rejects now w c d) = snd (update rejects ?s d)"
      using sel Cons by (simp add: update_statistics_def split: prod.splits)
    have "learning_history (fst (sql ?s (disk d))) = learning_history (disk d)"
      by simp
    then show ?thesis
      using update_frame[of d ?s rejects] assms u by auto
  qed
qed

subsection \<open>Statements on an open connection\<close>

lemma fetchone_note_open:
  assumes "conn d \<noteq> None" "\<not> rejects (SELECT_wrong_note w) (visible d)"
  shows "db_fetchone_note rejects (SELECT_wrong_note w) d =
           ((case note_entries (visible d) w of [] \<Rightarrow> None | r # _ \<Rightarrow> Some r), d)"
  using assms
  by (auto simp: db_fetchone_note_def execute_def sqlite_error_def note_entries_def)

lemma execute_dml_visible:
  assumes "conn d \<noteq> None" "\<not> rejects s (visible d)" "is_dml s"
  shows "visible (snd (execute rejects s d)) = fst (sql s (visible d))"
proof -
  have "s \<noteq> BEGIN" "s \<noteq> ROLLBACK" using assms(3) by auto
  then show ?thesis using assms
    by (auto simp: execute_def sqlite_error_def visible_def split: option.splits)
qed

lemma update_wrong_note_visible:
  assumes "conn d \<noteq> None" "\<And>s t. \<not> rejects s t"
  shows "visible (snd (update_wrong_note rejects now w e d)) =
           (case note_entries (visible d) w of
              [] \<Rightarrow> fst (sql (INSERT_wrong_note w e 1 now) (visible d))
            | r # _ \<Rightarrow> fst (sql (UPDATE_wrong_note e now (n_note_id r)) (visible d)))"
  using assms
  by (simp add: update_wrong_note_def fetchone_note_open execute_dml_visible split: list.splits)

lemma filter_map_keep:
  "(\<And>x. P (f x) = P x) \<Longrightarrow> filter P (map f xs) = map f (filter P xs)"
  by (induction xs) auto

subsection \<open>The two review queries\<close>

lemma visible_connect: "visible (connect d) = visible d"
  by (simp add: visible_def connect_def split: option.splits)

lemma conn_connect: "conn (connect d) \<noteq> None"
  by (simp add: connect_def split: option.splits)

lemma select_review_words_result:
  "fst (select_review_words rejects now limit d) =
     (if rejects (SELECT_review_words (strftime_end_of_day now) limit) (visible d) then []
      else sql_limit limit (sort_key rw_next_review
                              (review_join (visible d) (strftime_end_of_day now))))"
  using conn_connect[of d] visible_connect[of d]
  by (auto simp: select_review_words_def execute_def sqlite_error_def Let_def
      split: option.splits)

lemma select_wrong_words_result:
  "fst (select_wrong_words_for_review rejects limit d) =
     (if rejects (SELECT_wrong_words limit) (visible d) then []
      else case limit of None \<Rightarrow> sort_key wrong_order (wrong_join (visible d))
           | Some n \<Rightarrow> sql_limit n (sort_key wrong_order (wrong_join (visible d))))"
  using conn_connect[of d] visible_connect[of d]
  by (auto simp: select_wrong_words_for_review_def execute_def sqlite_error_def
      split: option.splits)

lemma set_sql_limit: "set (sql_limit n xs) \<subseteq> set xs"
  by (auto simp: sql_limit_def dest: in_set_takeD)

lemma length_sql_limit: "0 \<le> n \<Longrightarrow> int (length (sql_limit n xs)) \<le> n"
  by (simp add: sql_limit_def)

lemma sorted_sql_limit: "sorted (map f xs) \<Longrightarrow> sorted (map f (sql_limit n xs))"
  by (simp add: sql_limit_def flip: take_map)

lemma review_join_mem:
  assumes "r \<in> set (review_join t today)"
  shows "rw_next_review r \<le> today
         \<and> (\<exists>w \<in> set (words t). \<exists>s \<in> set (word_statistics t).
               w_word_id w = rw_word_id r \<and> w_is_deleted w = 0
               \<and> w_word_text w = rw_word_text r \<and> w_meaning_ko w = rw_meaning_ko r
               \<and> s_word_id s = rw_word_id r \<and> s_next_review s = rw_next_review r
               \<and> s_mastery_level s = rw_mastery_level r)"
  using assms by (fastforce simp: review_join_def)

lemma wrong_join_mem:
  assumes "r \<in> set (wrong_join t)"
  shows "\<exists>w \<in> set (words t). \<exists>n \<in> set (wrong_note t).
               w_word_id w = ww_word_id r \<and> w_is_deleted w = 0
               \<and> w_word_text w = ww_word_text r \<and> w_meaning_ko w = ww_meaning_ko r
               \<and> n_word_id n = ww_word_id r \<and> n_wrong_count n = ww_wrong_count r
               \<and> n_last_wrong_date n = ww_last_wrong_date r"
  using assms by (fastforce simp: wrong_join_def)

lemma wrong_join_complete:
  assumes "w \<in> set (words t)" "n \<in> set (wrong_note t)" "w_word_id w = n_word_id n"
    "w_is_deleted w = 0"
  shows "\<lparr>ww_word_id = w_word_id w, ww_word_text = w_word_text w, ww_meaning_ko = w_meaning_ko w,
          ww_wrong_count = n_wrong_count n, ww_last_wrong_date = n_last_wrong_date n\<rparr>
         \<in> set (wrong_join t)"
  using assms by (auto simp: wrong_join_def)

lemma sorted_wrong_order:
  assumes "sorted (map wrong_order xs)"
  shows "sorted_wrt (\<lambda>a b. ww_wrong_count b < ww_wrong_count a
                         \<or> (ww_wrong_count a = ww_wrong_count b
                            \<and> ww_last_wrong_date a \<le> ww_last_wrong_date b)) xs"
proof -
  have "sorted_wrt (\<lambda>a b. wrong_order a \<le> wrong_order b) xs"
    using assms by (simp add: sorted_map)
  then show ?thesis
    by (rule sorted_wrt_mono_rel[rotated]) (auto simp: wrong_order_def less_eq_prod_def)
qed

subsection \<open>Grading and recording an exam\<close>

lemma grade_fold:
  "fold (\<lambda>q (correct_count, wrong_count).
             if q_is_correct q = 1 then (correct_count + 1, wrong_count)
             else (correct_count, wrong_count + 1)) qs (c, w)
   = (c + int (length (filter (\<lambda>q. q_is_correct q = 1) qs)),
      w + int (length (filter (\<lambda>q. q_is_correct q \<noteq> 1) qs)))"
  by (induction qs arbitrary: c w) auto

lemma grade_counts:
  "grade qs = (int (length (filter (\<lambda>q. q_is_correct q = 1) qs)),
               int (length (filter (\<lambda>q. q_is_correct q \<noteq> 1) qs)))"
  by (simp add: grade_def grade_fold)

lemma seven_of_ten: "py_round (py_float_mul (py_truediv 7 10) 100) 1 = 70"
  by code_simp

lemma fold_max_nonneg: "0 \<le> a \<Longrightarrow> 0 \<le> fold max ids (a::int)"
  by (induction ids arbitrary: a) auto

lemma next_rowid_pos: "0 < next_rowid ids"
  using fold_max_nonneg[of 0 ids] by (simp add: next_rowid_def)

lemma record_exam_result_id:
  assumes "conn d = None" "\<not> rejects BEGIN (disk d)"
    "\<not> rejects (INSERT_exam_history now ty tq sc du) (disk d)"
  shows "fst (record_exam_result rejects now ty tq sc du qs d)
         = Some (next_rowid (map eh_exam_id (exam_history (disk d))))"
proof -
  let ?d1 = "set_isolation_level_none (connect d)"
  have d1: "?d1 = d\<lparr>conn := Some \<lparr>tx = None, isolation_level_none = True\<rparr>\<rparr>"
    using assms(1) by (simp add: set_isolation_level_none_def connect_def commit_def)
  have d2: "snd (execute rejects BEGIN ?d1)
            = d\<lparr>conn := Some \<lparr>tx = Some (disk d), isolation_level_none = True\<rparr>\<rparr>"
    unfolding d1 using assms(2) by (simp add: execute_def sqlite_error_def visible_def)
  have cur: "fst (execute rejects (INSERT_exam_history now ty tq sc du)
                   (snd (execute rejects BEGIN ?d1)))
             = Some (snd (sql (INSERT_exam_history now ty tq sc du) (disk d)))"
    unfolding d2 using assms(3) by (simp add: execute_def sqlite_error_def visible_def)
  have id: "lastrowid (snd (sql (INSERT_exam_history now ty tq sc du) (disk d)))
            = next_rowid (map eh_exam_id (exam_history (disk d)))"
    by (simp add: Let_def)
  obtain d3 where e: "execute rejects (INSERT_exam_history now ty tq sc du)
                        (snd (execute rejects BEGIN ?d1))
                      = (Some (snd (sql (INSERT_exam_history now ty tq sc du) (disk d))), d3)"
    using cur by (metis prod.collapse)
  show ?thesis
    using id next_rowid_pos[of "map eh_exam_id (exam_history (disk d))"]
    by (simp add: record_exam_result_def e Let_def)
qed

lemma ten_answers_summary: "fst (submit_and_record_exam no_errors 129600 ''short_answer'' 60 ten_answers empty_store)
     = Some \<lparr>sm_exam_id = 1, sm_score = 70, sm_correct_count = 7, sm_wrong_count = 3,
             sm_total_questions = 10\<rparr>"
proof -
  have g: "grade ten_answers = (7, 3)"
    by (simp add: grade_counts ten_answers_def exam_question_def)
  have l: "int (length ten_answers) = 10" "ten_answers \<noteq> []"
    by (simp_all add: ten_answers_def)
  have r: "fst (record_exam_result no_errors 129600 ''short_answer'' 10 70 60 ten_answers
                  empty_store) = Some 1"
    by (simp add: record_exam_result_id no_errors_def empty_store_def empty_tables_def
        next_rowid_def)
  obtain d' where r': "record_exam_result no_errors 129600 ''short_answer'' 10 70 60 ten_answers
                         empty_store = (Some 1, d')"
    using r by (metis prod.collapse)
  show ?thesis
    using g l seven_of_ten
    by (simp add: submit_and_record_exam_def r')
qed


lemma execute_rejected_open:
  assumes "conn d = Some c" "rejects s (visible d)"
  shows "execute rejects s d = (None, d\<lparr>conn := Some (c\<lparr>tx := None\<rparr>)\<rparr>)"
  using assms by (simp add: execute_def sqlite_error_def conn_rollback_def)

lemma execute_begin:
  assumes "conn d = Some c" "tx c = None" "\<not> rejects BEGIN (disk d)"
  shows "execute rejects BEGIN d
         = (Some \<lparr>lastrowid = 0, rowcount = - 1, fetchall = NoRows\<rparr>,
            d\<lparr>conn := Some (c\<lparr>tx := Some (disk d)\<rparr>)\<rparr>)"
  using assms by (simp add: execute_def sqlite_error_def visible_def)

lemma execute_query_open:
  assumes "conn d = Some c" "\<not> rejects s (visible d)" "\<not> is_dml s" "s \<noteq> BEGIN" "s \<noteq> ROLLBACK"
  shows "execute rejects s d = (Some (snd (sql s (visible d))), d)"
  using assms by (simp add: execute_def sqlite_error_def)

lemma execute_dml_autocommit:
  assumes "conn d = Some c" "tx c = None" "isolation_level_none c" "\<not> rejects s (disk d)"
    "is_dml s"
  shows "execute rejects s d
         = (Some (snd (sql s (disk d))), d\<lparr>disk := fst (sql s (disk d))\<rparr>)"
proof -
  have "s \<noteq> BEGIN" "s \<noteq> ROLLBACK" using assms(5) by auto
  then show ?thesis using assms by (simp add: execute_def sqlite_error_def visible_def)
qed

lemma execute_dml_in_tx:
  assumes "conn d = Some c" "tx c = Some t" "\<not> rejects s t" "is_dml s"
  shows "execute rejects s d
         = (Some (snd (sql s t)), d\<lparr>conn := Some (c\<lparr>tx := Some (fst (sql s t))\<rparr>)\<rparr>)"
proof -
  have "s \<noteq> BEGIN" "s \<noteq> ROLLBACK" using assms(4) by auto
  then show ?thesis using assms by (simp add: execute_def sqlite_error_def visible_def)
qed

lemma update_wrong_note_autocommit_new:
  assumes "conn d = Some c" "tx c = None" "isolation_level_none c"
    "\<not> rejects (SELECT_wrong_note w) (disk d)" "\<not> rejects (INSERT_wrong_note w e 1 now) (disk d)"
    "filter (\<lambda>n. n_word_id n = w) (wrong_note (disk d)) = []"
  shows "snd (update_wrong_note rejects now w e d)
         = d\<lparr>disk := fst (sql (INSERT_wrong_note w e 1 now) (disk d))\<rparr>"
proof -
  have v: "visible d = disk d" using assms(1,2) by (simp add: visible_def)
  have "db_fetchone_note rejects (SELECT_wrong_note w) d = (None, d)"
    using assms(1,4,6) v
    by (simp add: db_fetchone_note_def execute_query_open[OF assms(1)])
  then show ?thesis
    using assms by (simp add: update_wrong_note_def execute_dml_autocommit)
qed

subsection \<open>The exam transaction when the engine accepts every statement\<close>

lemma update_wrong_note_in_tx:
  assumes ok: "\<forall>s t. \<not> rejects s t" and c: "conn d = Some c" and t: "tx c = Some t"
  shows "\<exists>t'. snd (update_wrong_note rejects now w e d) = d\<lparr>conn := Some (c\<lparr>tx := Some t'\<rparr>)\<rparr>
              \<and> exam_questions t' = exam_questions t \<and> exam_history t' = exam_history t"
proof -
  have v: "visible d = t" using c t by (simp add: visible_def)
  have f: "db_fetchone_note rejects (SELECT_wrong_note w) d =
           ((case note_entries t w of [] \<Rightarrow> None | r # _ \<Rightarrow> Some r), d)"
    using fetchone_note_open[of d rejects w] c ok v by simp
  show ?thesis
  proof (cases "note_entries t w")
    case Nil
    have "snd (update_wrong_note rejects now w e d)
          = d\<lparr>conn := Some (c\<lparr>tx := Some (fst (sql (INSERT_wrong_note w e 1 now) t))\<rparr>)\<rparr>"
      using f ok Nil by (simp add: update_wrong_note_def execute_dml_in_tx[OF c t])
    then show ?thesis
      by (intro exI[of _ "fst (sql (INSERT_wrong_note w e 1 now) t)"]) (simp add: Let_def)
  next
    case (Cons r rest)
    have "snd (update_wrong_note rejects now w e d)
          = d\<lparr>conn := Some (c\<lparr>tx := Some (fst (sql (UPDATE_wrong_note e now (n_note_id r)) t))\<rparr>)\<rparr>"
      using f ok Cons by (simp add: update_wrong_note_def execute_dml_in_tx[OF c t])
    then show ?thesis
      by (intro exI[of _ "fst (sql (UPDATE_wrong_note e now (n_note_id r)) t)"]) simp
  qed
qed

lemma record_questions_in_tx:
  assumes ok: "\<forall>s t. \<not> rejects s t"
  shows "conn d = Some c \<Longrightarrow> tx c = Some t \<Longrightarrow>
         \<exists>t'. record_questions rejects now e qs d = d\<lparr>conn := Some (c\<lparr>tx := Some t'\<rparr>)\<rparr>
              \<and> map qr_question (exam_questions t') = map qr_question (exam_questions t) @ qs
              \<and> map qr_exam_id (exam_questions t')
                  = map qr_exam_id (exam_questions t) @ replicate (length qs) e
              \<and> exam_history t' = exam_history t"
proof (induction qs arbitrary: d c t)
  case Nil
  then show ?case
    by (intro exI[of _ t]) simp
next
  case (Cons q qs)
  define t1 where "t1 = fst (sql (INSERT_exam_questions q e) t)"
  define d1 where "d1 = d\<lparr>conn := Some (c\<lparr>tx := Some t1\<rparr>)\<rparr>"
  have e1: "snd (execute rejects (INSERT_exam_questions q e) d) = d1"
    using ok by (simp add: execute_dml_in_tx[OF Cons.prems] d1_def t1_def)
  have t1: "map qr_question (exam_questions t1) = map qr_question (exam_questions t) @ [q]"
       "map qr_exam_id (exam_questions t1) = map qr_exam_id (exam_questions t) @ [e]"
       "exam_history t1 = exam_history t"
    by (simp_all add: t1_def Let_def)
  have c1: "conn d1 = Some (c\<lparr>tx := Some t1\<rparr>)" "tx (c\<lparr>tx := Some t1\<rparr>) = Some t1"
    by (simp_all add: d1_def)
  define d2 where "d2 = (if q_is_correct q = 0
                         then snd (update_wrong_note rejects now (q_word_id q) e d1) else d1)"
  have "\<exists>t2. d2 = d\<lparr>conn := Some (c\<lparr>tx := Some t2\<rparr>)\<rparr>
             \<and> exam_questions t2 = exam_questions t1 \<and> exam_history t2 = exam_history t1"
  proof (cases "q_is_correct q = 0")
    case True
    obtain t2 where "snd (update_wrong_note rejects now (q_word_id q) e d1)
                       = d1\<lparr>conn := Some (c\<lparr>tx := Some t1, tx := Some t2\<rparr>)\<rparr>"
        "exam_questions t2 = exam_questions t1" "exam_history t2 = exam_history t1"
      using update_wrong_note_in_tx[OF ok c1, where now = now and w = "q_word_id q" and e = e]
      by blast
    then show ?thesis
      using True by (intro exI[of _ t2]) (simp add: d2_def d1_def)
  next
    case False
    then show ?thesis by (intro exI[of _ t1]) (simp add: d2_def d1_def)
  qed
  then obtain t2 where d2: "d2 = d\<lparr>conn := Some (c\<lparr>tx := Some t2\<rparr>)\<rparr>"
      and t2: "exam_questions t2 = exam_questions t1" "exam_history t2 = exam_history t1"
    by blast
  have c2: "conn d2 = Some (c\<lparr>tx := Some t2\<rparr>)" "tx (c\<lparr>tx := Some t2\<rparr>) = Some t2"
    by (simp_all add: d2)
  obtain t' where r: "record_questions rejects now e qs d2
                        = d2\<lparr>conn := Some (c\<lparr>tx := Some t2, tx := Some t'\<rparr>)\<rparr>"
      and t': "map qr_question (exam_questions t') = map qr_question (exam_questions t2) @ qs"
        "map qr_exam_id (exam_questions t')
           = map qr_exam_id (exam_questions t2) @ replicate (length qs) e"
        "exam_history t' = exam_history t2"
    using Cons.IH[OF c2] by blast
  have step: "record_questions rejects now e (q # qs) d = record_questions rejects now e qs d2"
    by (simp add: Let_def d2_def e1)
  have "record_questions rejects now e (q # qs) d = d\<lparr>conn := Some (c\<lparr>tx := Some t'\<rparr>)\<rparr>"
    unfolding step r by (simp add: d2)
  then show ?case
    using t' t2 t1 by (intro exI[of _ t']) simp
qed

lemma record_exam_result_commits_all:
  assumes ok: "\<forall>s t. \<not> rejects s t" and closed: "conn d = None"
  shows "\<exists>t'. record_exam_result rejects now ty tq sc du qs d
                = (Some (next_rowid (map eh_exam_id (exam_history (disk d)))),
                   \<lparr>disk = t', conn = None\<rparr>)
              \<and> exam_history t' = exam_history (disk d) @
                   [\<lparr>eh_exam_id = next_rowid (map eh_exam_id (exam_history (disk d))),
                     eh_exam_date = now, eh_exam_type = ty, eh_total_questions = tq,
                     eh_score = sc, eh_duration_sec = du, eh_is_deleted = 0\<rparr>]
              \<and> map qr_question (exam_questions t')
                  = map qr_question (exam_questions (disk d)) @ qs
              \<and> map qr_exam_id (exam_questions t')
                  = map qr_exam_id (exam_questions (disk d))
                    @ replicate (length qs) (next_rowid (map eh_exam_id (exam_history (disk d))))"
proof -
  define h where "h = INSERT_exam_history now ty tq sc du"
  define e where "e = next_rowid (map eh_exam_id (exam_history (disk d)))"
  define t3 where "t3 = fst (sql h (disk d))"
  define c3 where "c3 = \<lparr>tx = Some t3, isolation_level_none = True\<rparr>"
  define d3 where "d3 = d\<lparr>conn := Some c3\<rparr>"
  let ?auto = "\<lparr>tx = None, isolation_level_none = True\<rparr>"
  let ?c2 = "\<lparr>tx = Some (disk d), isolation_level_none = True\<rparr>"
  have dml: "is_dml h" by (simp add: h_def)
  have s1: "set_isolation_level_none (connect d) = d\<lparr>conn := Some ?auto\<rparr>"
    using closed by (simp add: set_isolation_level_none_def connect_def commit_def)
  have s2: "snd (execute rejects BEGIN (d\<lparr>conn := Some ?auto\<rparr>)) = d\<lparr>conn := Some ?c2\<rparr>"
    using ok by (simp add: execute_begin[where c = ?auto])
  have s3: "execute rejects h (d\<lparr>conn := Some ?c2\<rparr>) = (Some (snd (sql h (disk d))), d3)"
    using ok dml
    by (simp add: execute_dml_in_tx[where c = ?c2 and t = "disk d"] d3_def c3_def t3_def)
  have id: "lastrowid (snd (sql h (disk d))) = e" by (simp add: h_def e_def Let_def)
  have pos: "e \<noteq> 0"
    using next_rowid_pos[of "map eh_exam_id (exam_history (disk d))"] by (simp add: e_def)
  have t3: "exam_history t3 = exam_history (disk d) @
                   [\<lparr>eh_exam_id = e, eh_exam_date = now, eh_exam_type = ty,
                     eh_total_questions = tq, eh_score = sc, eh_duration_sec = du,
                     eh_is_deleted = 0\<rparr>]"
      "exam_questions t3 = exam_questions (disk d)"
    by (simp_all add: t3_def h_def e_def Let_def)
  have c3: "conn d3 = Some c3" "tx c3 = Some t3" by (simp_all add: d3_def c3_def)
  obtain t' where r: "record_questions rejects now e qs d3 = d3\<lparr>conn := Some (c3\<lparr>tx := Some t'\<rparr>)\<rparr>"
      and t': "map qr_question (exam_questions t') = map qr_question (exam_questions t3) @ qs"
        "map qr_exam_id (exam_questions t') = map qr_exam_id (exam_questions t3) @ replicate (length qs) e"
        "exam_history t' = exam_history t3"
    using record_questions_in_tx[OF ok c3, where now = now and e = e and qs = qs] by blast
  have fin: "close (commit (d3\<lparr>conn := Some (c3\<lparr>tx := Some t'\<rparr>)\<rparr>)) = \<lparr>disk = t', conn = None\<rparr>"
    by (simp add: close_def commit_def d3_def)
  have "record_exam_result rejects now ty tq sc du qs d
        = (case execute rejects h (d\<lparr>conn := Some ?c2\<rparr>) of
             (None, d3) \<Rightarrow> (None, close (snd (execute rejects ROLLBACK d3)))
           | (Some cur, d3) \<Rightarrow>
               if lastrowid cur = 0 then (None, close (snd (execute rejects ROLLBACK d3)))
               else (Some (lastrowid cur),
                     close (commit (record_questions rejects now (lastrowid cur) qs d3))))"
    by (simp add: record_exam_result_def Let_def s1 s2 h_def)
  also have "\<dots> = (Some e, \<lparr>disk = t', conn = None\<rparr>)"
    unfolding s3 using pos by (simp add: id r fin)
  finally have "record_exam_result rejects now ty tq sc du qs d
                = (Some e, \<lparr>disk = t', conn = None\<rparr>)" .
  then show ?thesis
    using t' t3 unfolding e_def by (intro exI[of _ t']) simp
qed

subsection \<open>The float model\<close>

text \<open>
  Checks of the float model: the double nearest to one tenth, a tie rounded to even, the
  exponent found by \<open>floor_log2\<close>, and the distance of half a unit in the last place between
  a number and its rounding.
\<close>

lemma float_round_tenth: "float_round (1 / 10) = 3602879701896397 / 36028797018963968"
  by code_simp

lemma py_round_tie_to_even: "py_round (25 / 4) 1 = float_round (62 / 10)"
  by code_simp

lemma float_round_small_int: "float_round 70 = 70"
  by code_simp

lemma pow2_add: "pow2 (a + b) = pow2 a * pow2 b"
proof -
  have "(2::rat) powi (a + b) = 2 powi a * 2 powi b"
    by (simp add: power_int_add)
  moreover have "pow2 e = 2 powi e" for e
    by (simp add: pow2_def power_int_def field_simps)
  ultimately show ?thesis by simp
qed

lemma pow2_pos: "0 < pow2 e"
  by (simp add: pow2_def)

lemma bit_length_bounds:
  "0 < n \<Longrightarrow> 0 < bit_length n \<and> pow2 (bit_length n - 1) \<le> of_int n \<and> of_int n < pow2 (bit_length n)"
proof (induction n rule: bit_length.induct)
  case (1 n)
  show ?case
  proof (cases "n = 1")
    case True
    then show ?thesis by (simp add: pow2_def)
  next
    case False
    then have h: "0 < n div 2" using "1.prems" by simp
    have ih: "0 < bit_length (n div 2)"
        "pow2 (bit_length (n div 2) - 1) \<le> of_int (n div 2)"
        "of_int (n div 2) < pow2 (bit_length (n div 2))"
      using "1.IH" h "1.prems" by auto
    have bl: "bit_length n = 1 + bit_length (n div 2)"
      using "1.prems" by (subst bit_length.simps) simp
    define k where "k = bit_length (n div 2)"
    have kpos: "0 < k" using ih(1) by (simp add: k_def)
    have p: "pow2 k = 2 ^ nat k" "pow2 (k - 1) = 2 ^ nat (k - 1)" "pow2 (1 + k) = 2 ^ nat (1 + k)"
      using kpos by (simp_all add: pow2_def)
    have lo: "(2::int) ^ nat (k - 1) \<le> n div 2"
      using ih(2) unfolding k_def[symmetric] p
      by (metis of_int_le_iff of_int_numeral of_int_power)
    have hi: "n div 2 < (2::int) ^ nat k"
      using ih(3) unfolding k_def[symmetric] p
      by (metis of_int_less_iff of_int_numeral of_int_power)
    have e1: "(2::int) ^ nat k = 2 * 2 ^ nat (k - 1)"
      using kpos by (metis Suc_nat_eq_nat_zadd1 add.commute diff_add_cancel power_Suc
          zle_diff1_eq)
    have e2: "(2::int) ^ nat (1 + k) = 2 * 2 ^ nat k"
      using kpos by (simp add: nat_add_distrib)
    have "(2::int) ^ nat k \<le> n" using lo e1 by linarith
    moreover have "n < (2::int) ^ nat (1 + k)" using hi e2 by linarith
    ultimately have "(2::rat) ^ nat k \<le> of_int n" "of_int n < (2::rat) ^ nat (1 + k)"
      by (metis of_int_le_iff of_int_numeral of_int_power,
          metis of_int_less_iff of_int_numeral of_int_power)
    then show ?thesis
      using kpos unfolding bl k_def[symmetric] p by (simp add: p)
  qed
qed


lemma floor_log2_bounds:
  assumes "0 < x"
  shows "pow2 (floor_log2 x) \<le> x \<and> x < pow2 (floor_log2 x + 1)"
proof -
  obtain n m where q: "quotient_of x = (n, m)" by (cases "quotient_of x")
  have m: "0 < m" using q by (rule quotient_of_denom_pos)
  have x: "x = of_int n / of_int m" using q by (rule quotient_of_div)
  have n: "0 < n" using assms m x by (simp add: zero_less_divide_iff)
  define a where "a = bit_length n"
  define b where "b = bit_length m"
  define k where "k = a - b"
  have bn: "pow2 (a - 1) \<le> of_int n" "of_int n < pow2 a"
    using bit_length_bounds[OF n] by (simp_all add: a_def)
  have bm: "pow2 (b - 1) \<le> of_int m" "of_int m < pow2 b"
    using bit_length_bounds[OF m] by (simp_all add: b_def)
  have mpos: "(0::rat) < of_int m" using m by simp
  have "pow2 a = pow2 (k + 1) * pow2 (b - 1)"
    using pow2_add[of "k + 1" "b - 1"] by (simp add: k_def)
  also have "\<dots> \<le> pow2 (k + 1) * of_int m"
    using bm(1) pow2_pos[of "k + 1"] by simp
  finally have "of_int n < pow2 (k + 1) * of_int m" using bn(2) by simp
  then have up: "x < pow2 (k + 1)"
    using mpos by (simp add: x pos_divide_less_eq)
  have "pow2 (k - 1) * of_int m < pow2 (k - 1) * pow2 b"
    using bm(2) pow2_pos[of "k - 1"] by simp
  also have "\<dots> = pow2 (a - 1)"
    using pow2_add[of "k - 1" b] by (simp add: k_def)
  finally have "pow2 (k - 1) * of_int m < of_int n" using bn(1) by simp
  then have lo: "pow2 (k - 1) < x"
    using mpos by (simp add: x pos_less_divide_eq)
  have fl: "floor_log2 x = (if pow2 k \<le> x then k else k - 1)"
    by (simp add: floor_log2_def q Let_def k_def a_def b_def)
  show ?thesis
  proof (cases "pow2 k \<le> x")
    case True
    then show ?thesis using up fl by simp
  next
    case False
    then show ?thesis using lo fl by simp
  qed
qed

lemma round_half_even_close: "\<bar>of_int (round_half_even y) - y\<bar> \<le> 1 / 2"
proof -
  have "of_int \<lfloor>y\<rfloor> \<le> y" "y < of_int \<lfloor>y\<rfloor> + 1" by linarith+
  then show ?thesis
    by (auto simp: round_half_even_def Let_def)
qed

lemma float_round_close:
  "\<bar>float_round x - x\<bar> \<le> pow2 (max (floor_log2 \<bar>x\<bar>) (- 1022) - 52) / 2"
proof (cases "x = 0")
  case True
  then show ?thesis using pow2_pos[of "max (floor_log2 \<bar>x\<bar>) (- 1022) - 52"]
    by (simp add: float_round_def)
next
  case False
  define u where "u = pow2 (max (floor_log2 \<bar>x\<bar>) (- 1022) - 52)"
  have u: "0 < u" by (simp add: u_def pow2_pos)
  have "float_round x - x = (of_int (round_half_even (x / u)) - x / u) * u"
    using False u by (simp add: float_round_def Let_def u_def[symmetric] field_simps)
  then have "\<bar>float_round x - x\<bar> = \<bar>of_int (round_half_even (x / u)) - x / u\<bar> * u"
    using u by (simp add: abs_mult)
  also have "\<dots> \<le> (1 / 2) * u"
    using round_half_even_close[of "x / u"] u by (intro mult_right_mono) simp_all
  finally show ?thesis by (simp add: u_def)
qed

subsection \<open>Rounding to one decimal\<close>

lemma one_of_three: "py_round (py_float_mul (py_truediv 1 3) 100) 1 = float_round (333 / 10)"
  by code_simp

lemma one_of_sixteen: "py_round (py_float_mul (py_truediv 1 16) 100) 1 = float_round (62 / 10)"
  by code_simp

lemma round_half_even_tie:
  "\<bar>of_int (round_half_even y) - y\<bar> = 1 / 2 \<Longrightarrow> even (round_half_even y)"
proof -
  have "of_int \<lfloor>y\<rfloor> \<le> y" "y < of_int \<lfloor>y\<rfloor> + 1" by linarith+
  then show "\<bar>of_int (round_half_even y) - y\<bar> = 1 / 2 \<Longrightarrow> even (round_half_even y)"
    by (auto simp: round_half_even_def Let_def split: if_splits)
qed

lemma py_round_one_decimal:
  "\<exists>k. py_round x 1 = float_round (of_int k / 10)
       \<and> \<bar>of_int k / 10 - x\<bar> \<le> 1 / 20
       \<and> (\<bar>of_int k / 10 - x\<bar> = 1 / 20 \<longrightarrow> even k)"
proof -
  define k where "k = round_half_even (x * 10)"
  have c: "\<bar>of_int k - x * 10\<bar> \<le> 1 / 2"
    unfolding k_def by (rule round_half_even_close)
  have e: "\<bar>of_int k / 10 - x\<bar> = \<bar>of_int k - x * 10\<bar> / 10"
    by (simp add: abs_if field_simps)
  have t: "\<bar>of_int k - x * 10\<bar> = 1 / 2 \<Longrightarrow> even k"
    unfolding k_def by (rule round_half_even_tie)
  have "py_round x 1 = float_round (of_int k / 10)"
    by (simp add: py_round_def k_def)
  moreover have "\<bar>of_int k / 10 - x\<bar> \<le> 1 / 20" using c e by simp
  moreover have "\<bar>of_int k / 10 - x\<bar> = 1 / 20 \<longrightarrow> even k" using t e by simp
  ultimately show ?thesis by blast
qed


lemma double_33_3: "float_round (333 / 10) = 2343279181116211 / 70368744177664"
  by code_simp

lemma double_6_2: "float_round (62 / 10) = 6980579422424269 / 1125899906842624"
  by code_simp

lemma product_one_of_three:
  "py_float_mul (py_truediv 1 3) 100 = 2345624805922133 / 70368744177664"
  by code_simp

lemma product_one_of_sixteen: "py_float_mul (py_truediv 1 16) 100 = 25 / 4"
  by code_simp

lemma answers_summary:
  assumes "qs \<noteq> []" "grade qs = (c, w)"
    "py_round (py_float_mul (py_truediv c (int (length qs))) 100) 1 = sc"
  shows "fst (submit_and_record_exam no_errors 129600 ''short_answer'' 60 qs empty_store)
         = Some \<lparr>sm_exam_id = 1, sm_score = sc, sm_correct_count = c, sm_wrong_count = w,
                  sm_total_questions = int (length qs)\<rparr>"
proof -
  have r: "fst (record_exam_result no_errors 129600 ''short_answer'' (int (length qs)) sc 60 qs
                  empty_store) = Some 1"
    by (simp add: record_exam_result_id no_errors_def empty_store_def empty_tables_def
        next_rowid_def)
  obtain d' where r': "record_exam_result no_errors 129600 ''short_answer'' (int (length qs)) sc
                         60 qs empty_store = (Some 1, d')"
    using r by (metis prod.collapse)
  have pos: "0 < int (length qs)" using assms(1) by simp
  show ?thesis
    using assms pos by (simp add: submit_and_record_exam_def r' Let_def)
qed

lemma three_answers_summary:
  "fst (submit_and_record_exam no_errors 129600 ''short_answer'' 60 three_answers empty_store)
     = Some \<lparr>sm_exam_id = 1, sm_score = 2343279181116211 / 70368744177664,
             sm_correct_count = 1, sm_wrong_count = 2, sm_total_questions = 3\<rparr>"
proof -
  have g: "grade three_answers = (1, 2)"
    by (simp add: grade_counts three_answers_def exam_question_def)
  have l: "int (length three_answers) = 3" "three_answers \<noteq> []"
    by (simp_all add: three_answers_def)
  show ?thesis
    using answers_summary[OF l(2) g, of "2343279181116211 / 70368744177664"]
      one_of_three double_33_3 l(1)
    by simp
qed

lemma sixteen_answers_summary:
  "fst (submit_and_record_exam no_errors 129600 ''short_answer'' 60 sixteen_answers empty_store)
     = Some \<lparr>sm_exam_id = 1, sm_score = 6980579422424269 / 1125899906842624,
             sm_correct_count = 1, sm_wrong_count = 15, sm_total_questions = 16\<rparr>"
proof -
  have g: "grade sixteen_answers = (1, 15)"
    by (simp add: grade_counts sixteen_answers_def exam_question_def)
  have l: "int (length sixteen_answers) = 16" "sixteen_answers \<noteq> []"
    by (simp_all add: sixteen_answers_def)
  show ?thesis
    using answers_summary[OF l(2) g, of "6980579422424269 / 1125899906842624"]
      one_of_sixteen double_6_2 l(1)
    by simp
qed

subsection \<open>The statistics update after the history write\<close>

lemma update_statistics_word_statistics_only:
  assumes "conn d = None" "conn d' = None" "word_statistics (disk d') = word_statistics (disk d)"
    and ok: "\<forall>s t. \<not> rejects s t"
  shows "fst (update_statistics rejects now w c d') = True
         \<and> map_option s_mastery_level
              (mastery_record (disk (snd (update_statistics rejects now w c d'))) w)
           = Some (if c then min (current_level_of (disk d) w + 1) 5 else 0)"
proof -
  have ok': "\<And>s t. \<not> rejects s t" using ok by simp
  have lv: "current_level_of (disk d') w = current_level_of (disk d) w"
    using assms(3) by (simp add: current_level_of_def mastery_record_def)
  have u: "fst (update_statistics rejects now w c d') = True"
    using update_statistics_ok[where rejects = rejects and d = d' and now = now and w = w
            and c = c, OF assms(2) ok']
    by (simp split: list.splits)
  have m: "map_option s_mastery_level
              (mastery_record (disk (snd (update_statistics rejects now w c d'))) w)
           = Some (fst (calculate_next_review now (current_level_of (disk d') w) c))"
    using mastery_after[where rejects = rejects and d = d' and now = now and w = w
            and c = c, OF assms(2) ok'] .
  show ?thesis
    using u m lv by (simp add: level_transition)
qed

section \<open>The claims\<close>

text \<open>
  C1, as the code has it: for a prior level between 0 and 5, the next-review timestamp
  computed by \<^verbatim>\<open>_calculate_next_review\<close> is midnight (00:00:00) of the day that lies the
  table's number of days for the new level, 1, 3, 7, 14, 30 or 365, after the clock reading.
  The time of day of the clock reading is dropped. When no connection is open and the engine
  accepts every statement, \<^verbatim>\<open>update_statistics\<close> stores exactly this timestamp in the
  word's mastery record.
\<close>

theorem next_review_is_start_of_day:
  assumes "0 \<le> current_level" and "current_level \<le> 5"
    and "calculate_next_review now current_level is_correct = (new_level, next_review_date)"
  shows "next_review_date =
           strftime_midnight (add_days now
             (if new_level = 0 then 1 else if new_level = 1 then 3 else if new_level = 2 then 7
              else if new_level = 3 then 14 else if new_level = 4 then 30 else 365))
         \<and> time_of_day next_review_date = 0
         \<and> 0 \<le> new_level \<and> new_level \<le> 5
         \<and> (conn d = None \<and> (\<forall>s t. \<not> rejects s t) \<and> current_level_of (disk d) w = current_level
              \<longrightarrow> map_option s_next_review
                    (mastery_record (disk (snd (update_statistics rejects now w is_correct d))) w)
                  = Some next_review_date)"
proof -
  have lv: "new_level = (if is_correct then min (current_level + 1) 5 else 0)"
    using assms(3) by (auto simp: calculate_next_review_def MAX_MASTERY_LEVEL_def Let_def)
  then have rng: "new_level \<in> {0, 1, 2, 3, 4, 5}"
    using assms(1,2) by (auto simp: min_def)
  have nr: "next_review_date = strftime_midnight (add_days now (dict_get SRS_INTERVALS new_level 1))"
    using assms(3) lv by (auto simp: calculate_next_review_def MAX_MASTERY_LEVEL_def Let_def)
  have tab: "dict_get SRS_INTERVALS new_level 1 =
           (if new_level = 0 then 1 else if new_level = 1 then 3 else if new_level = 2 then 7
              else if new_level = 3 then 14 else if new_level = 4 then 30 else 365)"
    using rng by (auto simp: dict_get_def SRS_INTERVALS_def)
  have tod: "time_of_day (strftime_midnight x) = 0" for x
    by (simp add: time_of_day_def strftime_midnight_def)
  have stored: "map_option s_next_review
                    (mastery_record (disk (snd (update_statistics rejects now w is_correct d))) w)
                  = Some next_review_date"
    if "conn d = None" "\<forall>s t. \<not> rejects s t" "current_level_of (disk d) w = current_level"
    using next_review_after[of d rejects now w is_correct] that assms(3) by simp
  show ?thesis using nr tab rng tod stored by auto
qed

theorem next_review_is_start_of_day_witness:
  "(0::int) \<le> 5 \<and> (5::int) \<le> 5
   \<and> calculate_next_review 129600 5 True = (5, 31622400)
   \<and> (31622400::int) = strftime_midnight (add_days 129600 365)
   \<and> time_of_day 31622400 = 0
   \<and> conn mastered_store = None \<and> (\<forall>s t. \<not> no_errors s t)
   \<and> current_level_of (disk mastered_store) 7 = 5
   \<and> map_option s_next_review
        (mastery_record (disk (snd (update_statistics no_errors 129600 7 True mastered_store))) 7)
      = Some 31622400"
  using next_review_is_start_of_day[where current_level = 5 and now = 129600
          and is_correct = True and new_level = 5 and next_review_date = 31622400
          and d = mastered_store and rejects = no_errors and w = 7]
  by (simp add: calculate_next_review_def MAX_MASTERY_LEVEL_def dict_get_def SRS_INTERVALS_def
      strftime_midnight_def add_days_def time_of_day_def no_errors_def mastered_store_def
      empty_tables_def current_level_of_def mastery_record_def)

text \<open>
  C1 as stated fails: at noon (43200 seconds into a day) an incorrect answer at level 0 gives
  level 0 and interval 1, the clock plus one day is noon of the next day (129600), and the
  code returns midnight of the next day (86400).
\<close>

theorem next_review_keeps_time_of_day_counterexample:
  "calculate_next_review 43200 0 False = (0, 86400)
   \<and> SRS_INTERVALS 0 = Some 1
   \<and> add_days 43200 1 = 129600
   \<and> snd (calculate_next_review 43200 0 False) \<noteq> add_days 43200 1
   \<and> time_of_day 43200 = 43200
   \<and> time_of_day (snd (calculate_next_review 43200 0 False)) = 0"
  by (simp add: calculate_next_review_def MAX_MASTERY_LEVEL_def dict_get_def SRS_INTERVALS_def
      strftime_midnight_def add_days_def time_of_day_def)

text \<open>
  C2: the level \<^verbatim>\<open>_calculate_next_review\<close> returns is 0 after an incorrect answer and
  \<open>min (prior + 1) 5\<close> after a correct one; when no connection is open and the engine accepts
  every statement, \<^verbatim>\<open>update_statistics\<close> leaves exactly that level in the word's mastery
  record, the prior level being the record's level or 0 when the word has none; and from a
  prior level in 0..5 the new level is in 0..5.
\<close>

theorem mastery_level_transition:
  assumes "conn d = None" and "\<And>s t. \<not> rejects s t"
  shows "fst (calculate_next_review now current_level is_correct)
           = (if is_correct then min (current_level + 1) 5 else 0)
         \<and> map_option s_mastery_level
             (mastery_record (disk (snd (update_statistics rejects now w is_correct d))) w)
           = Some (if is_correct then min (current_level_of (disk d) w + 1) 5 else 0)
         \<and> (0 \<le> current_level_of (disk d) w \<and> current_level_of (disk d) w \<le> 5 \<longrightarrow>
              (if is_correct then min (current_level_of (disk d) w + 1) 5 else 0) \<in> {0..5})"
  using mastery_after[OF assms]
  by (simp add: level_transition)

theorem mastery_level_transition_witness:
  "conn mastered_store = None \<and> (\<forall>s t. \<not> no_errors s t)
   \<and> current_level_of (disk mastered_store) 7 = 5
   \<and> map_option s_mastery_level
        (mastery_record (disk (snd (update_statistics no_errors 129600 7 True mastered_store))) 7)
      = Some 5
   \<and> map_option s_mastery_level
        (mastery_record (disk (snd (update_statistics no_errors 129600 7 False mastered_store))) 7)
      = Some 0"
  using mastery_level_transition[where d = mastered_store and rejects = no_errors
          and now = 129600 and w = 7 and is_correct = True and current_level = 5]
        mastery_level_transition[where d = mastered_store and rejects = no_errors
          and now = 129600 and w = 7 and is_correct = False and current_level = 5]
  by (simp add: no_errors_def mastered_store_def empty_tables_def current_level_of_def
      mastery_record_def)

text \<open>
  C4: \<^verbatim>\<open>submit_and_record_exam\<close> with an empty question list returns \<^verbatim>\<open>None\<close> and leaves the
  store, committed tables and connection, as it was: no row is written to any table.
\<close>

theorem empty_submission_is_rejected:
  "submit_and_record_exam rejects now exam_type duration_sec [] d = (None, d)"
  by (simp add: submit_and_record_exam_def)

text \<open>
  C9: called with no connection open, \<^verbatim>\<open>record_word_result\<close> returns success exactly when
  the history insert and the statistics update both succeed; the statistics update runs on
  the store the history write left, so when the history insert fails the result is that of
  the statistics update alone; the history table after the call is the one the history write
  left, whatever the statistics update did, so a written history row is never undone. When
  the engine accepts the history insert, the history table after the call is the old one
  followed by exactly one row, with a new id, the given session, word and response time, the
  flag 1 or 0 and the current timestamp; when it refuses the insert, the call returns failure
  and the history table is unchanged. When the engine accepts every statement the call
  returns success and the word's mastery record holds the new level.
\<close>

theorem record_word_result_two_writes:
  assumes "conn d = None"
  shows "fst (record_word_result rejects now sid w c rt d)
           = (fst (add_history rejects now sid w c rt d) \<noteq> None
              \<and> fst (update_statistics rejects now w c
                       (snd (add_history rejects now sid w c rt d))))
         \<and> snd (record_word_result rejects now sid w c rt d)
           = snd (update_statistics rejects now w c (snd (add_history rejects now sid w c rt d)))
         \<and> (fst (add_history rejects now sid w c rt d) = None \<longrightarrow>
              record_word_result rejects now sid w c rt d
              = (False, snd (update_statistics rejects now w c d)))
         \<and> learning_history (disk (snd (record_word_result rejects now sid w c rt d)))
           = learning_history (disk (snd (add_history rejects now sid w c rt d)))
         \<and> word_statistics (disk (snd (add_history rejects now sid w c rt d)))
           = word_statistics (disk d)
         \<and> (fst (add_history rejects now sid w c rt d) \<noteq> None \<longrightarrow>
              length (learning_history (disk (snd (record_word_result rejects now sid w c rt d))))
              = length (learning_history (disk d)) + 1)
         \<and> (\<not> rejects (INSERT_learning_history sid w (if c then 1 else 0) rt now) (disk d) \<longrightarrow>
              fst (add_history rejects now sid w c rt d)
                = Some (next_rowid (map lh_history_id (learning_history (disk d))))
              \<and> learning_history (disk (snd (record_word_result rejects now sid w c rt d)))
                = learning_history (disk d) @
                    [\<lparr>lh_history_id = next_rowid (map lh_history_id (learning_history (disk d))),
                      lh_session_id = sid, lh_word_id = w,
                      lh_is_correct = (if c then 1 else 0), lh_response_time = rt,
                      lh_learning_date = now\<rparr>])
         \<and> (rejects (INSERT_learning_history sid w (if c then 1 else 0) rt now) (disk d) \<longrightarrow>
              fst (record_word_result rejects now sid w c rt d) = False
              \<and> learning_history (disk (snd (record_word_result rejects now sid w c rt d)))
                = learning_history (disk d))
         \<and> ((\<forall>s t. \<not> rejects s t) \<longrightarrow>
              fst (record_word_result rejects now sid w c rt d) = True
              \<and> map_option s_mastery_level
                   (mastery_record (disk (snd (record_word_result rejects now sid w c rt d))) w)
                = Some (if c then min (current_level_of (disk d) w + 1) 5 else 0))"
proof -
  let ?ins = "INSERT_learning_history sid w (if c then 1 else 0) rt now"
  let ?row = "\<lparr>lh_history_id = next_rowid (map lh_history_id (learning_history (disk d))),
                      lh_session_id = sid, lh_word_id = w,
                      lh_is_correct = (if c then 1 else 0), lh_response_time = rt,
                      lh_learning_date = now\<rparr>"
  obtain h d1 where ah: "add_history rejects now sid w c rt d = (h, d1)"
    by (cases "add_history rejects now sid w c rt d")
  have d1: "conn d1 = None" "word_statistics (disk d1) = word_statistics (disk d)"
       "h = None \<longrightarrow> d1 = d"
       "h \<noteq> None \<longrightarrow> length (learning_history (disk d1)) = length (learning_history (disk d)) + 1"
    using ah assms add_history_cases[OF assms, of rejects now sid w c rt]
    by (auto split: if_splits)
  have acc: "\<not> rejects ?ins (disk d) \<longrightarrow>
               h = Some (next_rowid (map lh_history_id (learning_history (disk d))))
               \<and> learning_history (disk d1) = learning_history (disk d) @ [?row]"
    using ah add_history_cases[OF assms, of rejects now sid w c rt] by auto
  have rej: "rejects ?ins (disk d) \<longrightarrow> h = None \<and> d1 = d"
    using ah add_history_cases[OF assms, of rejects now sid w c rt] by auto
  have lh: "learning_history (disk (snd (update_statistics rejects now w c d1)))
            = learning_history (disk d1)"
    using update_statistics_frame[OF d1(1)] by simp
  have rw: "record_word_result rejects now sid w c rt d
            = (h \<noteq> None \<and> fst (update_statistics rejects now w c d1),
               snd (update_statistics rejects now w c d1))"
    using ah by (auto simp: record_word_result_def Let_def split: prod.splits)
  have good: "fst (record_word_result rejects now sid w c rt d) = True
              \<and> map_option s_mastery_level
                   (mastery_record (disk (snd (record_word_result rejects now sid w c rt d))) w)
                = Some (if c then min (current_level_of (disk d) w + 1) 5 else 0)"
    if ok: "\<forall>s t. \<not> rejects s t"
  proof -
    have "h \<noteq> None" using acc ok by simp
    then show ?thesis
      using update_statistics_word_statistics_only[OF assms d1(1) d1(2) ok, of now w c]
      unfolding rw by simp
  qed
  show ?thesis
    using ah d1 lh acc rej good unfolding rw by auto
qed

theorem record_word_result_two_writes_witness:
  "conn mastered_store = None
   \<and> fst (add_history history_unwritable 129600 3 7 False 2 mastered_store) = None
   \<and> record_word_result history_unwritable 129600 3 7 False 2 mastered_store
     = (False, snd (update_statistics history_unwritable 129600 7 False mastered_store))
   \<and> map_option s_mastery_level
       (mastery_record (disk (snd (record_word_result history_unwritable 129600 3 7 False 2
                                     mastered_store))) 7) = Some 0
   \<and> learning_history (disk (snd (record_word_result history_unwritable 129600 3 7 False 2
                                     mastered_store))) = []
   \<and> (\<forall>s t. \<not> no_errors s t)
   \<and> \<not> no_errors (INSERT_learning_history 3 7 1 2 129600) (disk mastered_store)
   \<and> fst (add_history no_errors 129600 3 7 True 2 mastered_store) = Some 1
   \<and> fst (record_word_result no_errors 129600 3 7 True 2 mastered_store) = True
   \<and> learning_history (disk (snd (record_word_result no_errors 129600 3 7 True 2
                                     mastered_store)))
     = [\<lparr>lh_history_id = 1, lh_session_id = 3, lh_word_id = 7, lh_is_correct = 1,
         lh_response_time = 2, lh_learning_date = 129600\<rparr>]
   \<and> map_option s_mastery_level
       (mastery_record (disk (snd (record_word_result no_errors 129600 3 7 True 2
                                     mastered_store))) 7) = Some 5"
proof -
  have c: "conn mastered_store = None" by (simp add: mastered_store_def)
  have h: "fst (add_history history_unwritable 129600 3 7 False 2 mastered_store) = None"
    by (simp add: add_history_cases[OF c])
  have s: "snd (update_statistics history_unwritable 129600 7 False mastered_store)
           = mastered_store\<lparr>disk := empty_tables\<lparr>word_statistics :=
               [\<lparr>s_stats_id = 1, s_word_id = 7, s_total_attempts = 10, s_correct_count = 8,
                 s_last_review = 129600, s_next_review = 172800, s_mastery_level = 0\<rparr>]\<rparr>\<rparr>"
    using c
    by (simp add: update_statistics_def select_all_closed update_cases mastered_store_def
        empty_tables_def calculate_next_review_def dict_get_def SRS_INTERVALS_def
        strftime_midnight_def add_days_def)
  have lv: "current_level_of (disk mastered_store) 7 = 5"
    by (simp add: current_level_of_def mastery_record_def mastered_store_def empty_tables_def)
  have ids: "next_rowid (map lh_history_id (learning_history (disk mastered_store))) = 1"
    by (simp add: next_rowid_def mastered_store_def empty_tables_def)
  have lh0: "learning_history (disk mastered_store) = []"
    by (simp add: mastered_store_def empty_tables_def)
  have n: "\<forall>s t. \<not> no_errors s t" by (simp add: no_errors_def)
  have n1: "\<not> no_errors (INSERT_learning_history 3 7 1 2 129600) (disk mastered_store)"
    by (simp add: no_errors_def)
  note bad = record_word_result_two_writes[OF c, where rejects = history_unwritable
            and now = 129600 and sid = 3 and w = 7 and c = False and rt = 2]
  note good = record_word_result_two_writes[OF c, where rejects = no_errors
            and now = 129600 and sid = 3 and w = 7 and c = True and rt = 2]
  have b1: "record_word_result history_unwritable 129600 3 7 False 2 mastered_store
     = (False, snd (update_statistics history_unwritable 129600 7 False mastered_store))"
    using bad h by blast
  have b2: "map_option s_mastery_level
       (mastery_record (disk (snd (record_word_result history_unwritable 129600 3 7 False 2
                                     mastered_store))) 7) = Some 0"
    unfolding b1 by (simp add: s mastery_record_def)
  have b3: "learning_history (disk (snd (record_word_result history_unwritable 129600 3 7 False 2
                                     mastered_store))) = []"
    unfolding b1 by (simp add: s empty_tables_def)
  have ids0: "next_rowid [] = 1" by (simp add: next_rowid_def)
  from good have acc:
    "\<not> no_errors (INSERT_learning_history 3 7 (if True then 1 else 0) 2 129600)
         (disk mastered_store) \<longrightarrow>
     fst (add_history no_errors 129600 3 7 True 2 mastered_store)
       = Some (next_rowid (map lh_history_id (learning_history (disk mastered_store))))
     \<and> learning_history (disk (snd (record_word_result no_errors 129600 3 7 True 2
                                       mastered_store)))
       = learning_history (disk mastered_store) @
           [\<lparr>lh_history_id = next_rowid (map lh_history_id
                                           (learning_history (disk mastered_store))),
             lh_session_id = 3, lh_word_id = 7, lh_is_correct = (if True then 1 else 0),
             lh_response_time = 2, lh_learning_date = 129600\<rparr>]"
    by blast
  from good have fin:
    "(\<forall>s t. \<not> no_errors s t) \<longrightarrow>
       fst (record_word_result no_errors 129600 3 7 True 2 mastered_store) = True
       \<and> map_option s_mastery_level
            (mastery_record (disk (snd (record_word_result no_errors 129600 3 7 True 2
                                          mastered_store))) 7)
         = Some (if True then min (current_level_of (disk mastered_store) 7 + 1) 5 else 0)"
    by blast
  have g1: "fst (add_history no_errors 129600 3 7 True 2 mastered_store) = Some 1"
    using acc by (simp add: no_errors_def lh0 ids0)
  have g3: "learning_history (disk (snd (record_word_result no_errors 129600 3 7 True 2
                                     mastered_store)))
     = [\<lparr>lh_history_id = 1, lh_session_id = 3, lh_word_id = 7, lh_is_correct = 1,
         lh_response_time = 2, lh_learning_date = 129600\<rparr>]"
    using acc by (simp add: no_errors_def lh0 ids0)
  have g2: "fst (record_word_result no_errors 129600 3 7 True 2 mastered_store) = True"
    using fin n by blast
  have g4: "map_option s_mastery_level
       (mastery_record (disk (snd (record_word_result no_errors 129600 3 7 True 2
                                     mastered_store))) 7) = Some 5"
    using fin n by (simp add: lv)
  show ?thesis
    using c h b1 b2 b3 n n1 g1 g2 g3 g4 by blast
qed

text \<open>
  C10: in mode \<^verbatim>\<open>'wrong_note'\<close> the result of \<^verbatim>\<open>generate_exam_words\<close>, word list and store,
  is the same for any two category arguments, on every store, count, engine and shuffle.
\<close>

theorem wrong_note_mode_ignores_category:
  "generate_exam_words rejects shuffle question_count ''wrong_note'' category1 d
   = generate_exam_words rejects shuffle question_count ''wrong_note'' category2 d"
  by (simp add: generate_exam_words_def)

text \<open>
  C6: \<^verbatim>\<open>_update_wrong_note\<close> runs on the connection of its caller. When that connection is
  open and the engine accepts every statement, then in the tables the connection sees: a
  word without an entry gets one new entry with count 1, the given exam id and the current
  timestamp; the single entry of a word has its count raised by exactly 1 and its exam id
  and date overwritten; and every word that had at most one entry before has at most one
  after.
\<close>

theorem wrong_note_upsert:
  assumes "conn d \<noteq> None" and "\<And>s t. \<not> rejects s t"
  shows "(note_entries (visible d) w = [] \<longrightarrow>
            note_entries (visible (snd (update_wrong_note rejects now w e d))) w
            = [\<lparr>n_note_id = next_rowid (map n_note_id (wrong_note (visible d))), n_word_id = w,
                n_latest_exam_id = e, n_wrong_count = 1, n_last_wrong_date = now\<rparr>])
       \<and> (\<forall>n. note_entries (visible d) w = [n] \<longrightarrow>
            note_entries (visible (snd (update_wrong_note rejects now w e d))) w
            = [n\<lparr>n_wrong_count := n_wrong_count n + 1, n_latest_exam_id := e,
                 n_last_wrong_date := now\<rparr>])
       \<and> (\<forall>w'. length (note_entries (visible d) w') \<le> 1 \<longrightarrow>
            length (note_entries (visible (snd (update_wrong_note rejects now w e d))) w') \<le> 1)"
proof (cases "note_entries (visible d) w")
  case Nil
  have v: "visible (snd (update_wrong_note rejects now w e d))
           = fst (sql (INSERT_wrong_note w e 1 now) (visible d))"
    using update_wrong_note_visible[OF assms] Nil by simp
  show ?thesis
    using Nil unfolding v by (auto simp: note_entries_def Let_def)
next
  case (Cons r rest)
  let ?f = "\<lambda>n. if n_note_id n = n_note_id r
                then n\<lparr>n_wrong_count := n_wrong_count n + 1, n_latest_exam_id := e,
                       n_last_wrong_date := now\<rparr>
                else n"
  have v: "visible (snd (update_wrong_note rejects now w e d))
           = fst (sql (UPDATE_wrong_note e now (n_note_id r)) (visible d))"
    using update_wrong_note_visible[OF assms] Cons by simp
  have keep: "note_entries (fst (sql (UPDATE_wrong_note e now (n_note_id r)) (visible d))) w'
              = map ?f (note_entries (visible d) w')" for w'
    by (simp add: note_entries_def filter_map_keep)
  show ?thesis
    using Cons unfolding v keep by auto
qed

theorem wrong_note_upsert_witness:
  "conn exam_in_progress \<noteq> None \<and> (\<forall>s t. \<not> no_errors s t)
   \<and> note_entries (visible exam_in_progress) 7
     = [\<lparr>n_note_id = 1, n_word_id = 7, n_latest_exam_id = 2, n_wrong_count = 4,
         n_last_wrong_date = 86400\<rparr>]
   \<and> note_entries (visible (snd (update_wrong_note no_errors 129600 7 3 exam_in_progress))) 7
     = [\<lparr>n_note_id = 1, n_word_id = 7, n_latest_exam_id = 3, n_wrong_count = 5,
         n_last_wrong_date = 129600\<rparr>]
   \<and> note_entries (visible exam_in_progress) 8 = []
   \<and> note_entries (visible (snd (update_wrong_note no_errors 129600 8 3 exam_in_progress))) 8
     = [\<lparr>n_note_id = 2, n_word_id = 8, n_latest_exam_id = 3, n_wrong_count = 1,
         n_last_wrong_date = 129600\<rparr>]
   \<and> length (note_entries (visible (snd (update_wrong_note no_errors 129600 7 3
                                           exam_in_progress))) 7) \<le> 1"
proof -
  have c: "conn exam_in_progress \<noteq> None" by (simp add: exam_in_progress_def)
  have n: "\<And>s t. \<not> no_errors s t" by (simp add: no_errors_def)
  have e7: "note_entries (visible exam_in_progress) 7
     = [\<lparr>n_note_id = 1, n_word_id = 7, n_latest_exam_id = 2, n_wrong_count = 4,
         n_last_wrong_date = 86400\<rparr>]"
    by (simp add: note_entries_def visible_def exam_in_progress_def empty_tables_def)
  have e8: "note_entries (visible exam_in_progress) 8 = []"
    by (simp add: note_entries_def visible_def exam_in_progress_def empty_tables_def)
  have ids: "next_rowid (map n_note_id (wrong_note (visible exam_in_progress))) = 2"
    by (simp add: next_rowid_def visible_def exam_in_progress_def empty_tables_def)
  show ?thesis
    using wrong_note_upsert[where rejects = no_errors and d = exam_in_progress
                                and w = 7 and now = 129600 and e = 3, OF c n]
      wrong_note_upsert[where rejects = no_errors and d = exam_in_progress
                                and w = 8 and now = 129600 and e = 3, OF c n]
      c n e7 e8 ids
    by simp
qed

text \<open>
  C7: for every limit \<open>N \<ge> 0\<close>, \<^verbatim>\<open>select_review_words\<close> returns at most \<open>N\<close> rows, sorted
  ascending by next-review date; every row has a next-review date at or before 23:59:59 of
  today and comes from a word that is not soft-deleted and a mastery record of that word
  with that date. This holds whatever the engine refuses (a refused query returns the empty
  list).
\<close>

theorem due_words_selection:
  assumes "0 \<le> limit"
  shows "int (length (fst (select_review_words rejects now limit d))) \<le> limit
       \<and> sorted (map rw_next_review (fst (select_review_words rejects now limit d)))
       \<and> (\<forall>r \<in> set (fst (select_review_words rejects now limit d)).
            rw_next_review r \<le> strftime_end_of_day now
            \<and> (\<exists>w \<in> set (words (visible d)). \<exists>s \<in> set (word_statistics (visible d)).
                  w_word_id w = rw_word_id r \<and> w_is_deleted w = 0
                  \<and> w_word_text w = rw_word_text r
                  \<and> s_word_id s = rw_word_id r \<and> s_next_review s = rw_next_review r))"
proof (cases "rejects (SELECT_review_words (strftime_end_of_day now) limit) (visible d)")
  case True
  then show ?thesis using assms by (simp add: select_review_words_result)
next
  case False
  let ?all = "sort_key rw_next_review (review_join (visible d) (strftime_end_of_day now))"
  have res: "fst (select_review_words rejects now limit d) = sql_limit limit ?all"
    using False by (simp add: select_review_words_result)
  have len: "int (length (sql_limit limit ?all)) \<le> limit"
    using assms by (rule length_sql_limit)
  have srt: "sorted (map rw_next_review (sql_limit limit ?all))"
    by (rule sorted_sql_limit) simp
  have mem: "r \<in> set (review_join (visible d) (strftime_end_of_day now))"
    if "r \<in> set (sql_limit limit ?all)" for r
    using that set_sql_limit[of limit ?all] by auto
  show ?thesis
    unfolding res using len srt review_join_mem[OF mem] by blast
qed


theorem due_words_selection_witness:
  "(0::int) \<le> 1
   \<and> fst (select_review_words no_errors 129600 1 review_store)
     = [\<lparr>rw_word_id = 1, rw_word_text = ''apple'', rw_meaning_ko = ''sagwa'',
         rw_mastery_level = 1, rw_next_review = 3600\<rparr>]
   \<and> int (length (fst (select_review_words no_errors 129600 1 review_store))) \<le> 1
   \<and> sorted (map rw_next_review (fst (select_review_words no_errors 129600 1 review_store)))"
  using due_words_selection[of 1 no_errors 129600 review_store]
  by (simp add: select_review_words_result no_errors_def review_store_def empty_tables_def
      visible_def review_join_def sql_limit_def strftime_end_of_day_def)

text \<open>
  C8: the rows \<^verbatim>\<open>select_wrong_words_for_review\<close> returns are ordered by wrong count
  descending and, for equal counts, by last-wrong date ascending; every row comes from a word
  that is not soft-deleted and a wrong-note entry of that word; and when the limit is omitted
  and the query is accepted, no row is left out: the result has as many rows as the join of
  non-deleted words with their entries, and holds the row of every such pair.
\<close>

theorem wrong_words_review_order:
  "sorted_wrt (\<lambda>a b. ww_wrong_count b < ww_wrong_count a
                    \<or> (ww_wrong_count a = ww_wrong_count b
                       \<and> ww_last_wrong_date a \<le> ww_last_wrong_date b))
     (fst (select_wrong_words_for_review rejects limit d))
   \<and> (\<forall>r \<in> set (fst (select_wrong_words_for_review rejects limit d)).
        \<exists>w \<in> set (words (visible d)). \<exists>n \<in> set (wrong_note (visible d)).
          w_word_id w = ww_word_id r \<and> w_is_deleted w = 0 \<and> w_word_text w = ww_word_text r
          \<and> n_word_id n = ww_word_id r \<and> n_wrong_count n = ww_wrong_count r
          \<and> n_last_wrong_date n = ww_last_wrong_date r)
   \<and> (\<not> rejects (SELECT_wrong_words None) (visible d) \<longrightarrow>
        length (fst (select_wrong_words_for_review rejects None d))
          = length (wrong_join (visible d))
        \<and> (\<forall>w \<in> set (words (visible d)). \<forall>n \<in> set (wrong_note (visible d)).
              w_word_id w = n_word_id n \<and> w_is_deleted w = 0 \<longrightarrow>
              \<lparr>ww_word_id = w_word_id w, ww_word_text = w_word_text w,
               ww_meaning_ko = w_meaning_ko w, ww_wrong_count = n_wrong_count n,
               ww_last_wrong_date = n_last_wrong_date n\<rparr>
              \<in> set (fst (select_wrong_words_for_review rejects None d))))"
proof -
  let ?all = "sort_key wrong_order (wrong_join (visible d))"
  let ?rs = "fst (select_wrong_words_for_review rejects limit d)"
  have sub: "set ?rs \<subseteq> set (wrong_join (visible d))"
    using set_sql_limit[of _ ?all]
    by (auto simp: select_wrong_words_result split: option.splits if_splits)
  have "sorted (map wrong_order ?rs)"
    by (auto simp: select_wrong_words_result sorted_sql_limit split: option.splits)
  then have ord: "sorted_wrt (\<lambda>a b. ww_wrong_count b < ww_wrong_count a
                    \<or> (ww_wrong_count a = ww_wrong_count b
                       \<and> ww_last_wrong_date a \<le> ww_last_wrong_date b)) ?rs"
    by (rule sorted_wrong_order)
  have src: "\<forall>r \<in> set ?rs.
        \<exists>w \<in> set (words (visible d)). \<exists>n \<in> set (wrong_note (visible d)).
          w_word_id w = ww_word_id r \<and> w_is_deleted w = 0 \<and> w_word_text w = ww_word_text r
          \<and> n_word_id n = ww_word_id r \<and> n_wrong_count n = ww_wrong_count r
          \<and> n_last_wrong_date n = ww_last_wrong_date r"
    using sub wrong_join_mem[of _ "visible d"] by blast
  have full: "\<not> rejects (SELECT_wrong_words None) (visible d) \<Longrightarrow>
              fst (select_wrong_words_for_review rejects None d) = ?all"
    by (simp add: select_wrong_words_result)
  show ?thesis
    using ord src full wrong_join_complete[of _ "visible d"] by auto
qed

theorem wrong_words_review_order_witness:
  "fst (select_wrong_words_for_review no_errors None review_store)
     = [\<lparr>ww_word_id = 3, ww_word_text = ''plum'', ww_meaning_ko = ''jadu'',
         ww_wrong_count = 5, ww_last_wrong_date = 20\<rparr>,
        \<lparr>ww_word_id = 2, ww_word_text = ''pear'', ww_meaning_ko = ''bae'',
         ww_wrong_count = 5, ww_last_wrong_date = 50\<rparr>,
        \<lparr>ww_word_id = 1, ww_word_text = ''apple'', ww_meaning_ko = ''sagwa'',
         ww_wrong_count = 2, ww_last_wrong_date = 10\<rparr>]
   \<and> \<not> no_errors (SELECT_wrong_words None) (visible review_store)
   \<and> length (fst (select_wrong_words_for_review no_errors None review_store))
     = length (wrong_join (visible review_store))"
  using wrong_words_review_order[of no_errors None review_store]
  by (simp add: select_wrong_words_result no_errors_def review_store_def empty_tables_def
      visible_def wrong_join_def wrong_order_def)

text \<open>
  C5: whenever \<^verbatim>\<open>submit_and_record_exam\<close> returns a summary, the question list was not
  empty, the summary's total is the number of questions, its correct count the number of
  questions whose flag equals 1, its wrong count the number of the others, and its score is
  Python's \<^verbatim>\<open>round(correct / total * 100, 1)\<close> on floats. The score is the double nearest to
  a number \<open>k / 10\<close> with one decimal, where \<open>k / 10\<close> lies within \<open>1 / 20\<close> of the float product
  \<^verbatim>\<open>correct / total * 100\<close> and \<open>k\<close> is even when it lies exactly \<open>1 / 20\<close> away. With 10
  questions and 7 correct the score is exactly 70.0; with 3 questions and 1 correct it is the
  double 33.3, which differs from the unrounded product; with 16 questions and 1 correct the
  product is the tie 6.25 and the score is the double 6.2. And a summary is returned for
  every non-empty list when no connection is open and the engine accepts every statement.
\<close>

theorem exam_summary_counts_and_score:
  "(fst (submit_and_record_exam rejects now exam_type duration_sec questions_data d) = Some sm
    \<longrightarrow> questions_data \<noteq> []
       \<and> sm_total_questions sm = int (length questions_data)
       \<and> sm_correct_count sm = int (length (filter (\<lambda>q. q_is_correct q = 1) questions_data))
       \<and> sm_wrong_count sm = int (length (filter (\<lambda>q. q_is_correct q \<noteq> 1) questions_data))
       \<and> sm_score sm = py_round (py_float_mul (py_truediv (sm_correct_count sm)
                                                (sm_total_questions sm)) 100) 1
       \<and> (\<exists>k. sm_score sm = float_round (of_int k / 10)
              \<and> \<bar>of_int k / 10 - py_float_mul (py_truediv (sm_correct_count sm)
                                                  (sm_total_questions sm)) 100\<bar> \<le> 1 / 20
              \<and> (\<bar>of_int k / 10 - py_float_mul (py_truediv (sm_correct_count sm)
                                                   (sm_total_questions sm)) 100\<bar> = 1 / 20
                  \<longrightarrow> even k))
       \<and> (sm_total_questions sm = 10 \<and> sm_correct_count sm = 7 \<longrightarrow> sm_score sm = 70)
       \<and> (sm_total_questions sm = 3 \<and> sm_correct_count sm = 1 \<longrightarrow>
            sm_score sm = float_round (333 / 10)
            \<and> sm_score sm = 2343279181116211 / 70368744177664
            \<and> sm_score sm \<noteq> py_float_mul (py_truediv 1 3) 100)
       \<and> (sm_total_questions sm = 16 \<and> sm_correct_count sm = 1 \<longrightarrow>
            sm_score sm = float_round (62 / 10)
            \<and> sm_score sm = 6980579422424269 / 1125899906842624
            \<and> sm_score sm \<noteq> py_float_mul (py_truediv 1 16) 100))
   \<and> (questions_data \<noteq> [] \<and> conn d = None \<and> (\<forall>s t. \<not> rejects s t)
      \<longrightarrow> fst (submit_and_record_exam rejects now exam_type duration_sec questions_data d)
          \<noteq> None)"
proof (intro conjI impI)
  assume "questions_data \<noteq> [] \<and> conn d = None \<and> (\<forall>s t. \<not> rejects s t)"
  then have ne: "questions_data \<noteq> []" and closed: "conn d = None"
    and ok: "\<forall>s t. \<not> rejects s t" by auto
  obtain c w where g: "grade questions_data = (c, w)"
    by (cases "grade questions_data")
  define tq where "tq = int (length questions_data)"
  define sc where "sc = py_round (if tq > 0 then py_float_mul (py_truediv c tq) 100 else 0) 1"
  obtain e d' where r: "record_exam_result rejects now exam_type tq sc duration_sec
                          questions_data d = (Some e, d')"
    using record_exam_result_commits_all[OF ok closed, where now = now and ty = exam_type
            and tq = tq and sc = sc and du = duration_sec and qs = questions_data]
    by blast
  have "fst (submit_and_record_exam rejects now exam_type duration_sec questions_data d)
        = Some \<lparr>sm_exam_id = e, sm_score = sc, sm_correct_count = c, sm_wrong_count = w,
                 sm_total_questions = tq\<rparr>"
    using ne r unfolding tq_def sc_def
    by (simp add: submit_and_record_exam_def g Let_def)
  then show "fst (submit_and_record_exam rejects now exam_type duration_sec questions_data d)
             \<noteq> None"
    by simp
next
  assume a: "fst (submit_and_record_exam rejects now exam_type duration_sec questions_data d)
             = Some sm"
  show ne: "questions_data \<noteq> []"
    using a by (auto simp: submit_and_record_exam_def)
  then have pos: "0 < int (length questions_data)" by simp
  have main: "sm_total_questions sm = int (length questions_data)
       \<and> sm_correct_count sm = int (length (filter (\<lambda>q. q_is_correct q = 1) questions_data))
       \<and> sm_wrong_count sm = int (length (filter (\<lambda>q. q_is_correct q \<noteq> 1) questions_data))
       \<and> sm_score sm = py_round (py_float_mul (py_truediv (sm_correct_count sm)
                                                (sm_total_questions sm)) 100) 1"
    using a ne pos
    by (auto simp: submit_and_record_exam_def grade_counts Let_def
        split: prod.splits option.splits)
  show "sm_total_questions sm = int (length questions_data)" using main by simp
  show "sm_correct_count sm = int (length (filter (\<lambda>q. q_is_correct q = 1) questions_data))"
    using main by simp
  show "sm_wrong_count sm = int (length (filter (\<lambda>q. q_is_correct q \<noteq> 1) questions_data))"
    using main by simp
  show sc: "sm_score sm = py_round (py_float_mul (py_truediv (sm_correct_count sm)
                                                (sm_total_questions sm)) 100) 1"
    using main by simp
  show "\<exists>k. sm_score sm = float_round (of_int k / 10)
              \<and> \<bar>of_int k / 10 - py_float_mul (py_truediv (sm_correct_count sm)
                                                  (sm_total_questions sm)) 100\<bar> \<le> 1 / 20
              \<and> (\<bar>of_int k / 10 - py_float_mul (py_truediv (sm_correct_count sm)
                                                   (sm_total_questions sm)) 100\<bar> = 1 / 20
                  \<longrightarrow> even k)"
    unfolding sc by (rule py_round_one_decimal)
  {
    assume "sm_total_questions sm = 10 \<and> sm_correct_count sm = 7"
    then show "sm_score sm = 70" using main seven_of_ten by simp
  }
  {
    assume h: "sm_total_questions sm = 3 \<and> sm_correct_count sm = 1"
    then show s3: "sm_score sm = float_round (333 / 10)" using main one_of_three by simp
    show "sm_score sm = 2343279181116211 / 70368744177664"
      unfolding s3 by (rule double_33_3)
    show "sm_score sm \<noteq> py_float_mul (py_truediv 1 3) 100"
      unfolding s3 double_33_3 product_one_of_three by simp
  }
  {
    assume h: "sm_total_questions sm = 16 \<and> sm_correct_count sm = 1"
    then show s16: "sm_score sm = float_round (62 / 10)" using main one_of_sixteen by simp
    show "sm_score sm = 6980579422424269 / 1125899906842624"
      unfolding s16 by (rule double_6_2)
    show "sm_score sm \<noteq> py_float_mul (py_truediv 1 16) 100"
      unfolding s16 double_6_2 product_one_of_sixteen by simp
  }
qed

theorem exam_summary_counts_and_score_witness:
  "fst (submit_and_record_exam no_errors 129600 ''short_answer'' 60 ten_answers empty_store)
     = Some \<lparr>sm_exam_id = 1, sm_score = 70, sm_correct_count = 7, sm_wrong_count = 3,
             sm_total_questions = 10\<rparr>
   \<and> ten_answers \<noteq> [] \<and> conn empty_store = None \<and> (\<forall>s t. \<not> no_errors s t)
   \<and> int (length ten_answers) = 10
   \<and> int (length (filter (\<lambda>q. q_is_correct q = 1) ten_answers)) = 7
   \<and> int (length (filter (\<lambda>q. q_is_correct q \<noteq> 1) ten_answers)) = 3
   \<and> fst (submit_and_record_exam no_errors 129600 ''short_answer'' 60 three_answers empty_store)
     = Some \<lparr>sm_exam_id = 1, sm_score = 2343279181116211 / 70368744177664,
             sm_correct_count = 1, sm_wrong_count = 2, sm_total_questions = 3\<rparr>
   \<and> (2343279181116211 / 70368744177664 :: rat) = float_round (333 / 10)
   \<and> (2343279181116211 / 70368744177664 :: rat) \<noteq> py_float_mul (py_truediv 1 3) 100
   \<and> fst (submit_and_record_exam no_errors 129600 ''short_answer'' 60 sixteen_answers
            empty_store)
     = Some \<lparr>sm_exam_id = 1, sm_score = 6980579422424269 / 1125899906842624,
             sm_correct_count = 1, sm_wrong_count = 15, sm_total_questions = 16\<rparr>
   \<and> (6980579422424269 / 1125899906842624 :: rat) = float_round (62 / 10)
   \<and> (6980579422424269 / 1125899906842624 :: rat) \<noteq> py_float_mul (py_truediv 1 16) 100"
proof -
  note t10 = exam_summary_counts_and_score[where rejects = no_errors and now = 129600
          and exam_type = "''short_answer''" and duration_sec = 60
          and questions_data = ten_answers and d = empty_store
          and sm = "\<lparr>sm_exam_id = 1, sm_score = 70, sm_correct_count = 7, sm_wrong_count = 3,
                     sm_total_questions = 10\<rparr>"]
  note t3 = exam_summary_counts_and_score[where rejects = no_errors and now = 129600
          and exam_type = "''short_answer''" and duration_sec = 60
          and questions_data = three_answers and d = empty_store
          and sm = "\<lparr>sm_exam_id = 1, sm_score = 2343279181116211 / 70368744177664,
                     sm_correct_count = 1, sm_wrong_count = 2, sm_total_questions = 3\<rparr>"]
  note t16 = exam_summary_counts_and_score[where rejects = no_errors and now = 129600
          and exam_type = "''short_answer''" and duration_sec = 60
          and questions_data = sixteen_answers and d = empty_store
          and sm = "\<lparr>sm_exam_id = 1, sm_score = 6980579422424269 / 1125899906842624,
                     sm_correct_count = 1, sm_wrong_count = 15, sm_total_questions = 16\<rparr>"]
  have a10: "int (length ten_answers) = 10
       \<and> int (length (filter (\<lambda>q. q_is_correct q = 1) ten_answers)) = 7
       \<and> int (length (filter (\<lambda>q. q_is_correct q \<noteq> 1) ten_answers)) = 3
       \<and> ten_answers \<noteq> []"
    using t10 ten_answers_summary by simp
  have a3: "(2343279181116211 / 70368744177664 :: rat) = float_round (333 / 10)
       \<and> (2343279181116211 / 70368744177664 :: rat) \<noteq> py_float_mul (py_truediv 1 3) 100"
    using t3 three_answers_summary by simp
  have a16: "(6980579422424269 / 1125899906842624 :: rat) = float_round (62 / 10)
       \<and> (6980579422424269 / 1125899906842624 :: rat) \<noteq> py_float_mul (py_truediv 1 16) 100"
    using t16 sixteen_answers_summary by simp
  have e: "conn empty_store = None" "\<forall>s t. \<not> no_errors s t"
    by (simp_all add: empty_store_def no_errors_def)
  show ?thesis
    using a10 a3 a16 e ten_answers_summary three_answers_summary sixteen_answers_summary
    by blast
qed

text \<open>
  C3 at a failing input. Two wrongly answered questions, as the exam view builds them, are
  recorded on an empty store whose \<^verbatim>\<open>exam_questions\<close> table refuses their unknown columns.
  \<^verbatim>\<open>DBConnection.execute\<close> swallows each error after rolling the connection back, so the
  \<^verbatim>\<open>except\<close> branch of \<^verbatim>\<open>record_exam_result\<close> is never entered: the call returns exam id 1,
  the committed store has no exam and no question row, and it has both wrong-note rows,
  which name exam 1.
\<close>

theorem record_exam_result_partial_write:
  "record_exam_result unknown_column 129600 ''short_answer'' 2 0 60
       [view_question 1 0, view_question 2 0] empty_store
     = (Some 1,
        \<lparr>disk = empty_tables\<lparr>wrong_note :=
            [\<lparr>n_note_id = 1, n_word_id = 1, n_latest_exam_id = 1, n_wrong_count = 1,
              n_last_wrong_date = 129600\<rparr>,
             \<lparr>n_note_id = 2, n_word_id = 2, n_latest_exam_id = 1, n_wrong_count = 1,
              n_last_wrong_date = 129600\<rparr>]\<rparr>,
         conn = None\<rparr>)"
proof -
  let ?auto = "\<lparr>tx = None, isolation_level_none = True\<rparr>"
  let ?h = "INSERT_exam_history 129600 ''short_answer'' 2 0 60"
  let ?t0 = "empty_tables"
  let ?t1 = "empty_tables\<lparr>wrong_note :=
            [\<lparr>n_note_id = 1, n_word_id = 1, n_latest_exam_id = 1, n_wrong_count = 1,
              n_last_wrong_date = 129600\<rparr>]\<rparr>"
  let ?t2 = "empty_tables\<lparr>wrong_note :=
            [\<lparr>n_note_id = 1, n_word_id = 1, n_latest_exam_id = 1, n_wrong_count = 1,
              n_last_wrong_date = 129600\<rparr>,
             \<lparr>n_note_id = 2, n_word_id = 2, n_latest_exam_id = 1, n_wrong_count = 1,
              n_last_wrong_date = 129600\<rparr>]\<rparr>"
  have rej: "unknown_column (INSERT_exam_questions (view_question w c) e) t" for w c e t
    by (simp add: view_question_def exam_question_columns_def)
  have q: "q_is_correct (view_question w c) = c" "q_word_id (view_question w c) = w" for w c
    by (simp_all add: view_question_def)
  have s1: "set_isolation_level_none (connect empty_store) = \<lparr>disk = ?t0, conn = Some ?auto\<rparr>"
    by (simp add: set_isolation_level_none_def connect_def commit_def empty_store_def)
  have s2: "execute unknown_column BEGIN \<lparr>disk = ?t0, conn = Some ?auto\<rparr>
            = (Some \<lparr>lastrowid = 0, rowcount = - 1, fetchall = NoRows\<rparr>,
               \<lparr>disk = ?t0, conn = Some \<lparr>tx = Some ?t0, isolation_level_none = True\<rparr>\<rparr>)"
    by (simp add: execute_begin[where c = ?auto])
  have s3: "execute unknown_column ?h
              \<lparr>disk = ?t0, conn = Some \<lparr>tx = Some ?t0, isolation_level_none = True\<rparr>\<rparr>
            = (Some \<lparr>lastrowid = 1, rowcount = 1, fetchall = NoRows\<rparr>,
               \<lparr>disk = ?t0,
                conn = Some \<lparr>tx = Some (fst (sql ?h ?t0)), isolation_level_none = True\<rparr>\<rparr>)"
    by (simp add: execute_dml_in_tx[where c = "\<lparr>tx = Some ?t0, isolation_level_none = True\<rparr>"
          and t = ?t0] empty_tables_def next_rowid_def)
  have s4: "execute unknown_column (INSERT_exam_questions (view_question w c) 1)
              \<lparr>disk = t, conn = Some \<lparr>tx = x, isolation_level_none = True\<rparr>\<rparr>
            = (None, \<lparr>disk = t, conn = Some ?auto\<rparr>)" for w c t x
    using execute_rejected_open[where rejects = unknown_column
            and s = "INSERT_exam_questions (view_question w c) 1"
            and d = "\<lparr>disk = t, conn = Some \<lparr>tx = x, isolation_level_none = True\<rparr>\<rparr>"
            and c = "\<lparr>tx = x, isolation_level_none = True\<rparr>"] rej
    by simp
  have s5: "snd (update_wrong_note unknown_column 129600 1 1 \<lparr>disk = ?t0, conn = Some ?auto\<rparr>)
            = \<lparr>disk = ?t1, conn = Some ?auto\<rparr>"
    by (simp add: update_wrong_note_autocommit_new[where c = ?auto] empty_tables_def
        next_rowid_def)
  have s6: "snd (update_wrong_note unknown_column 129600 2 1 \<lparr>disk = ?t1, conn = Some ?auto\<rparr>)
            = \<lparr>disk = ?t2, conn = Some ?auto\<rparr>"
    by (simp add: update_wrong_note_autocommit_new[where c = ?auto] empty_tables_def
        next_rowid_def)
  have s7: "close (commit \<lparr>disk = ?t2, conn = Some ?auto\<rparr>) = \<lparr>disk = ?t2, conn = None\<rparr>"
    by (simp add: close_def commit_def)
  show ?thesis
    by (simp add: record_exam_result_def Let_def s1 s2 s3 s4 q s5 s6 s7)
qed

end
